theory Spec2Isabelle
  imports Main
begin

section \<open>Python strings\<close>

text \<open>
  Statement text is a Python \<open>str\<close>, a sequence of code points; it is modelled as a
  \<open>string\<close> whose characters are the code points 0 to 255 (ASCII and Latin-1), the
  range of \<open>char\<close>. The character classes below are Python's classes on that range.
\<close>

definition is_space :: "char \<Rightarrow> bool" where
  \<comment> \<open>\<open>str.isspace\<close>, also the class \<open>\s\<close>: TAB, LF, VT, FF, CR, FS, GS, RS, US, the
      blank, NEL and the no-break space\<close>
  "is_space c = (c \<in> set [CHR 0x09, CHR 0x0A, CHR 0x0B, CHR 0x0C, CHR 0x0D,
                           CHR 0x1C, CHR 0x1D, CHR 0x1E, CHR 0x1F, CHR 0x20,
                           CHR 0x85, CHR 0xA0])"

definition is_int_space :: "char \<Rightarrow> bool" where
  \<comment> \<open>the blanks that \<open>int\<close> and \<open>float\<close> skip around a number: the C blanks TAB, LF, VT,
      FF, CR and the blank, and the blanks beyond ASCII (read as a blank); FS, GS, RS and
      US are not skipped\<close>
  "is_int_space c = (c \<in> set [CHR 0x09, CHR 0x0A, CHR 0x0B, CHR 0x0C, CHR 0x0D, CHR 0x20,
                               CHR 0x85, CHR 0xA0])"

definition ascii_lowercase :: string where
  "ascii_lowercase = ''abcdefghijklmnopqrstuvwxyz''"

definition ascii_uppercase :: string where
  "ascii_uppercase = ''ABCDEFGHIJKLMNOPQRSTUVWXYZ''"

definition latin1_lowercase :: string where
  \<comment> \<open>the small letters of Latin-1 whose capital is in Latin-1\<close>
  "latin1_lowercase =
     [CHR 0xE0, CHR 0xE1, CHR 0xE2, CHR 0xE3, CHR 0xE4, CHR 0xE5, CHR 0xE6, CHR 0xE7,
      CHR 0xE8, CHR 0xE9, CHR 0xEA, CHR 0xEB, CHR 0xEC, CHR 0xED, CHR 0xEE, CHR 0xEF,
      CHR 0xF0, CHR 0xF1, CHR 0xF2, CHR 0xF3, CHR 0xF4, CHR 0xF5, CHR 0xF6, CHR 0xF8,
      CHR 0xF9, CHR 0xFA, CHR 0xFB, CHR 0xFC, CHR 0xFD, CHR 0xFE]"

definition latin1_uppercase :: string where
  \<comment> \<open>their capitals, in the same order\<close>
  "latin1_uppercase =
     [CHR 0xC0, CHR 0xC1, CHR 0xC2, CHR 0xC3, CHR 0xC4, CHR 0xC5, CHR 0xC6, CHR 0xC7,
      CHR 0xC8, CHR 0xC9, CHR 0xCA, CHR 0xCB, CHR 0xCC, CHR 0xCD, CHR 0xCE, CHR 0xCF,
      CHR 0xD0, CHR 0xD1, CHR 0xD2, CHR 0xD3, CHR 0xD4, CHR 0xD5, CHR 0xD6, CHR 0xD8,
      CHR 0xD9, CHR 0xDA, CHR 0xDB, CHR 0xDC, CHR 0xDD, CHR 0xDE]"

definition latin1_other_word :: string where
  \<comment> \<open>the other alphanumerics of Latin-1: the ordinal indicators, the superscript digits,
      the micro sign, the fractions, the sharp s and the y with diaeresis\<close>
  "latin1_other_word =
     [CHR 0xAA, CHR 0xB2, CHR 0xB3, CHR 0xB5, CHR 0xB9, CHR 0xBA, CHR 0xBC, CHR 0xBD,
      CHR 0xBE, CHR 0xDF, CHR 0xFF]"

definition digits :: string where
  "digits = ''0123456789''"

definition is_digit :: "char \<Rightarrow> bool" where
  "is_digit c = (c \<in> set digits)"

definition is_word :: "char \<Rightarrow> bool" where
  \<comment> \<open>the regular expression class \<open>\w\<close>: \<open>str.isalnum\<close> or the underscore\<close>
  "is_word c = (c \<in> set ascii_lowercase \<or> c \<in> set ascii_uppercase \<or> c \<in> set digits
                 \<or> c = CHR ''_'' \<or> c \<in> set latin1_lowercase \<or> c \<in> set latin1_uppercase
                 \<or> c \<in> set latin1_other_word)"

definition upper_char :: "char \<Rightarrow> char" where
  \<comment> \<open>the capital of a letter that has one in the range, else the character itself\<close>
  "upper_char c =
     (case map_of (zip (ascii_lowercase @ latin1_lowercase)
                       (ascii_uppercase @ latin1_uppercase)) c of
        Some u \<Rightarrow> u | None \<Rightarrow> c)"

definition ascii_lower_char :: "char \<Rightarrow> char" where
  "ascii_lower_char c = (case map_of (zip ascii_uppercase ascii_lowercase) c of
                           Some l \<Rightarrow> l | None \<Rightarrow> c)"

definition upper :: "string \<Rightarrow> string" where
  \<comment> \<open>\<open>str.upper\<close>: the sharp s becomes \<open>SS\<close>. The capitals of the micro sign and of the
      y with diaeresis lie beyond code point 255; the two are left as they are, which no
      comparison with ASCII text tells apart.\<close>
  "upper s = concat (map (\<lambda>c. if c = CHR 0xDF then ''SS'' else [upper_char c]) s)"

definition ascii_lower :: "string \<Rightarrow> string" where
  \<comment> \<open>lower case for the ASCII letters only, as \<open>int\<close> and \<open>float\<close> compare\<close>
  "ascii_lower s = map ascii_lower_char s"

definition lstrip :: "string \<Rightarrow> string" where
  "lstrip s = dropWhile is_space s"

definition rstrip :: "string \<Rightarrow> string" where
  "rstrip s = rev (dropWhile is_space (rev s))"

definition strip :: "string \<Rightarrow> string" where
  "strip s = rstrip (lstrip s)"

definition int_strip :: "string \<Rightarrow> string" where
  \<comment> \<open>the text between the blanks that \<open>int\<close> and \<open>float\<close> skip\<close>
  "int_strip s = rev (dropWhile is_int_space (rev (dropWhile is_int_space s)))"

fun startswith :: "string \<Rightarrow> string \<Rightarrow> bool" where
  "startswith s [] = True"
| "startswith [] (p # ps) = False"
| "startswith (c # cs) (p # ps) = (c = p \<and> startswith cs ps)"

definition endswith :: "string \<Rightarrow> string \<Rightarrow> bool" where
  "endswith s p = startswith (rev s) (rev p)"

fun find :: "string \<Rightarrow> string \<Rightarrow> nat option" where
  \<comment> \<open>\<open>s.find(p)\<close>: the lowest index where \<open>p\<close> starts; \<open>None\<close> stands for Python's -1.\<close>
  "find [] p = (if p = [] then Some 0 else None)"
| "find (c # cs) p =
     (if startswith (c # cs) p then Some 0
      else (case find cs p of None \<Rightarrow> None | Some i \<Rightarrow> Some (Suc i)))"

definition contains :: "string \<Rightarrow> string \<Rightarrow> bool" where
  \<comment> \<open>\<open>p in s\<close>\<close>
  "contains s p = (find s p \<noteq> None)"

definition slice :: "'a list \<Rightarrow> nat \<Rightarrow> nat \<Rightarrow> 'a list" where
  \<comment> \<open>\<open>xs[a:b]\<close> for non-negative \<open>a\<close> and \<open>b\<close>\<close>
  "slice xs a b = take (b - a) (drop a xs)"

fun split_on :: "char \<Rightarrow> string \<Rightarrow> string list" where
  \<comment> \<open>\<open>s.split(c)\<close> for a one-character separator: always at least one piece\<close>
  "split_on sep [] = [[]]"
| "split_on sep (c # cs) =
     (if c = sep then [] # split_on sep cs
      else (case split_on sep cs of
              [] \<Rightarrow> [[c]]
            | p # ps \<Rightarrow> (c # p) # ps))"

fun split_once :: "char \<Rightarrow> string \<Rightarrow> string list" where
  \<comment> \<open>\<open>s.split(c, 1)\<close>: one piece when \<open>c\<close> is absent, else the text before and after its
      first occurrence\<close>
  "split_once sep [] = [[]]"
| "split_once sep (c # cs) =
     (if c = sep then [[], cs]
      else (case split_once sep cs of
              [] \<Rightarrow> [[c]]
            | p # ps \<Rightarrow> (c # p) # ps))"

definition first_word :: "string \<Rightarrow> string option" where
  \<comment> \<open>\<open>s.split()[0]\<close>: the first run of non-blank characters; \<open>None\<close> is the IndexError
      on a string with none\<close>
  "first_word s = (case lstrip s of [] \<Rightarrow> None
                   | c # cs \<Rightarrow> Some (takeWhile (\<lambda>x. \<not> is_space x) (c # cs)))"

function replace :: "string \<Rightarrow> string \<Rightarrow> string \<Rightarrow> string" where
  \<comment> \<open>\<open>s.replace(old, new)\<close> for a non-empty \<open>old\<close>: leftmost occurrences, not overlapping\<close>
  "replace [] old new = []"
| "replace (c # cs) old new =
     (if old \<noteq> [] \<and> startswith (c # cs) old
      then new @ replace (drop (length old) (c # cs)) old new
      else c # replace cs old new)"
  by pat_completeness auto
termination
  by (relation "measure (\<lambda>(s, old, new). length s)") (auto simp: neq_Nil_conv)

section \<open>Python's \<open>int\<close> and \<open>float\<close> on strings\<close>

definition digit_table :: "(char \<times> nat) list" where
  "digit_table =
     [(CHR ''0'', 0), (CHR ''1'', 1), (CHR ''2'', 2), (CHR ''3'', 3), (CHR ''4'', 4),
      (CHR ''5'', 5), (CHR ''6'', 6), (CHR ''7'', 7), (CHR ''8'', 8), (CHR ''9'', 9),
      (CHR ''a'', 10), (CHR ''b'', 11), (CHR ''c'', 12), (CHR ''d'', 13), (CHR ''e'', 14),
      (CHR ''f'', 15),
      (CHR ''A'', 10), (CHR ''B'', 11), (CHR ''C'', 12), (CHR ''D'', 13), (CHR ''E'', 14),
      (CHR ''F'', 15)]"

definition digit_val :: "nat \<Rightarrow> char \<Rightarrow> nat option" where
  \<comment> \<open>the value of a digit in base 10 or 16\<close>
  "digit_val base c =
     (case map_of digit_table c of
        None \<Rightarrow> None
      | Some d \<Rightarrow> if d < base then Some d else None)"

fun after_digit :: "nat \<Rightarrow> string \<Rightarrow> nat \<Rightarrow> nat option" where
  \<comment> \<open>the rest of \<open>digit (["_"] digit)*\<close> after a digit, with the value read so far\<close>
  "after_digit base [] acc = Some acc"
| "after_digit base (c # cs) acc =
     (if c = CHR ''_''
      then (case cs of
              [] \<Rightarrow> None
            | d # ds \<Rightarrow> (case digit_val base d of
                           None \<Rightarrow> None
                         | Some v \<Rightarrow> after_digit base ds (acc * base + v)))
      else (case digit_val base c of
              None \<Rightarrow> None
            | Some v \<Rightarrow> after_digit base cs (acc * base + v)))"

definition digitpart :: "nat \<Rightarrow> string \<Rightarrow> nat option" where
  "digitpart base s =
     (case s of
        [] \<Rightarrow> None
      | c # cs \<Rightarrow> (case digit_val base c of
                     None \<Rightarrow> None
                   | Some v \<Rightarrow> after_digit base cs v))"

definition split_sign :: "string \<Rightarrow> int \<times> string" where
  "split_sign s =
     (case s of
        [] \<Rightarrow> (1, [])
      | c # cs \<Rightarrow> if c = CHR ''+'' then (1, cs)
                  else if c = CHR ''-'' then (- 1, cs)
                  else (1, c # cs))"

definition max_str_digits :: nat where
  \<comment> \<open>the default of \<open>sys.get_int_max_str_digits()\<close>\<close>
  "max_str_digits = 4300"

definition py_int :: "string \<Rightarrow> int option" where
  \<comment> \<open>\<open>int(s)\<close>: blanks around, a sign, decimal digits with single underscores between them,
      no more digits than the limit; \<open>None\<close> is the ValueError\<close>
  "py_int s =
     (let (sign, body) = split_sign (int_strip s)
      in (case digitpart 10 body of
            None \<Rightarrow> None
          | Some n \<Rightarrow>
              if max_str_digits < length (filter (\<lambda>c. c \<noteq> CHR ''_'') body) then None
              else Some (sign * int n)))"

definition py_int16 :: "string \<Rightarrow> int option" where
  \<comment> \<open>\<open>int(s, 16)\<close>: as \<open>int(s)\<close> with hexadecimal digits and an optional \<open>0x\<close> prefix
      (which one underscore may follow)\<close>
  "py_int16 s =
     (let (sign, body) = split_sign (int_strip s);
          body' = (if startswith (ascii_lower body) ''0x''
                   then (let r = drop 2 body
                         in if startswith r ''_'' then drop 1 r else r)
                   else body)
      in (case digitpart 16 body' of
            None \<Rightarrow> None
          | Some n \<Rightarrow> Some (sign * int n)))"

fun skip_after_digit :: "string \<Rightarrow> string" where
  "skip_after_digit [] = []"
| "skip_after_digit (c # cs) =
     (if is_digit c then skip_after_digit cs
      else if c = CHR ''_''
      then (case cs of
              [] \<Rightarrow> c # cs
            | d # ds \<Rightarrow> if is_digit d then skip_after_digit ds else c # cs)
      else c # cs)"

definition skip_digitpart :: "string \<Rightarrow> string option" where
  \<comment> \<open>the text after the longest \<open>digit (["_"] digit)*\<close> at the start; \<open>None\<close> when the
      text does not start with a digit\<close>
  "skip_digitpart s =
     (case s of
        [] \<Rightarrow> None
      | c # cs \<Rightarrow> if is_digit c then Some (skip_after_digit cs) else None)"

definition exponent_ok :: "string \<Rightarrow> bool" where
  \<comment> \<open>an optional \<open>("e" | "E") [sign] digitpart\<close>, up to the end of the text\<close>
  "exponent_ok s =
     (case s of
        [] \<Rightarrow> True
      | c # cs \<Rightarrow> (c = CHR ''e'' \<or> c = CHR ''E'')
                  \<and> skip_digitpart (snd (split_sign cs)) = Some [])"

definition floatnumber_ok :: "string \<Rightarrow> bool" where
  \<comment> \<open>\<open>([digitpart] "." digitpart | digitpart ["."]) [exponent]\<close>\<close>
  "floatnumber_ok s =
     (case skip_digitpart s of
        Some r \<Rightarrow>
          (case r of
             [] \<Rightarrow> True
           | c # cs \<Rightarrow>
               if c = CHR ''.''
               then (case skip_digitpart cs of
                       Some r' \<Rightarrow> exponent_ok r'
                     | None \<Rightarrow> exponent_ok cs)
               else exponent_ok (c # cs))
      | None \<Rightarrow>
          (case s of
             [] \<Rightarrow> False
           | c # cs \<Rightarrow>
               c = CHR ''.''
               \<and> (case skip_digitpart cs of
                     Some r' \<Rightarrow> exponent_ok r'
                   | None \<Rightarrow> False)))"

definition py_float_ok :: "string \<Rightarrow> bool" where
  \<comment> \<open>whether \<open>float(s)\<close> returns: blanks around, a sign, then \<open>inf\<close>, \<open>infinity\<close>,
      \<open>nan\<close> (in any case) or a decimal number; \<open>False\<close> is the ValueError\<close>
  "py_float_ok s =
     (let body = snd (split_sign (int_strip s))
      in ascii_lower body \<in> set [''inf'', ''infinity'', ''nan''] \<or> floatnumber_ok body)"

section \<open>Errors\<close>

datatype error =
    InterfaceError string
  | ProgrammingError string
  | OperationalError string
  | ValueError string
  | BuiltinValueError   \<comment> \<open>a ValueError raised inside \<open>int\<close> or by tuple unpacking\<close>
  | IndexError
  | HTTPError string    \<comment> \<open>\<open>httpx.HTTPError\<close>, with its text\<close>

section \<open>The value codec\<close>

text \<open>
  A Python value as the codec sees it. A float is carried as the decimal text that
  denotes it (its IEEE value is not modelled); \<open>PObject\<close> is a value of any other type.
\<close>

datatype pyval =
    PNone
  | PBool bool
  | PInt int
  | PFloat string
  | PStr string
  | PBytes "nat list"
  | PList "pyval list"
  | PObject string

datatype wire =
    WNull
  | WBool bool
  | WInt32 int
  | WInt64 int
  | WFloat64 string
  | WString string
  | WBytes "nat list"
  | WBoolArray "pyval list"
  | WInt64Array "pyval list"
  | WFloat64Array "pyval list"
  | WStringArray "pyval list"

text \<open>
  The \<open>isinstance\<close> tests, each returning the value it found. In Python \<open>bool\<close> is a
  subclass of \<open>int\<close>: \<open>isinstance(True, int)\<close> holds and \<open>True\<close> counts as 1.
\<close>

fun as_bool :: "pyval \<Rightarrow> bool option" where
  "as_bool (PBool b) = Some b"
| "as_bool _ = None"

fun as_int :: "pyval \<Rightarrow> int option" where
  "as_int (PInt i) = Some i"
| "as_int (PBool b) = Some (if b then 1 else 0)"
| "as_int _ = None"

fun as_float :: "pyval \<Rightarrow> string option" where
  "as_float (PFloat f) = Some f"
| "as_float _ = None"

fun as_str :: "pyval \<Rightarrow> string option" where
  "as_str (PStr s) = Some s"
| "as_str _ = None"

fun as_bytes :: "pyval \<Rightarrow> nat list option" where
  "as_bytes (PBytes bs) = Some bs"
| "as_bytes _ = None"

fun as_list :: "pyval \<Rightarrow> pyval list option" where
  "as_list (PList xs) = Some xs"
| "as_list _ = None"

definition int_tag :: "int \<Rightarrow> wire" where
  \<comment> \<open>the integer branch, the same text in both codecs\<close>
  "int_tag v = (if - (2 ^ 31) \<le> v \<and> v < 2 ^ 31 then WInt32 v else WInt64 v)"

definition convert_value :: "(pyval \<Rightarrow> string) \<Rightarrow> pyval \<Rightarrow> wire" where
  \<comment> \<open>\<open>Cursor._convert_value\<close>; \<open>py_str\<close> is Python's \<open>str\<close>\<close>
  "convert_value py_str v =
     (if v = PNone then WNull
      else (case as_bool v of Some b \<Rightarrow> WBool b | None \<Rightarrow>
           (case as_int v of Some i \<Rightarrow> int_tag i | None \<Rightarrow>
           (case as_float v of Some f \<Rightarrow> WFloat64 f | None \<Rightarrow>
           (case as_str v of Some s \<Rightarrow> WString s | None \<Rightarrow>
            WString (py_str v))))))"

definition array_tag :: "(pyval \<Rightarrow> string) \<Rightarrow> pyval list \<Rightarrow> wire" where
  "array_tag py_str xs =
     (case xs of
        [] \<Rightarrow> WStringArray []
      | first # _ \<Rightarrow>
          if as_bool first \<noteq> None then WBoolArray xs
          else if as_int first \<noteq> None then WInt64Array xs
          else if as_float first \<noteq> None then WFloat64Array xs
          else if as_str first \<noteq> None then WStringArray xs
          else WStringArray (map (\<lambda>x. PStr (py_str x)) xs))"

definition client_convert_value :: "(pyval \<Rightarrow> string) \<Rightarrow> pyval \<Rightarrow> wire" where
  \<comment> \<open>\<open>OrmdbClient._convert_value\<close>\<close>
  "client_convert_value py_str v =
     (if v = PNone then WNull
      else (case as_bool v of Some b \<Rightarrow> WBool b | None \<Rightarrow>
           (case as_int v of Some i \<Rightarrow> int_tag i | None \<Rightarrow>
           (case as_float v of Some f \<Rightarrow> WFloat64 f | None \<Rightarrow>
           (case as_str v of Some s \<Rightarrow> WString s | None \<Rightarrow>
           (case as_bytes v of Some bs \<Rightarrow> WBytes bs | None \<Rightarrow>
           (case as_list v of Some xs \<Rightarrow> array_tag py_str xs | None \<Rightarrow>
            WString (py_str v))))))))"

section \<open>Identifiers\<close>

fun decimal :: "nat \<Rightarrow> string" where
  \<comment> \<open>\<open>str(n)\<close> for a length\<close>
  "decimal n = (if n < 10 then [digits ! n] else decimal (n div 10) @ [digits ! (n mod 10)])"

definition hex_pairs :: "string \<Rightarrow> error + int list" where
  \<comment> \<open>\<open>[int(hex_str[i : i + 2], 16) for i in range(0, 32, 2)]\<close>\<close>
  "hex_pairs hex_str =
     (case those (map (\<lambda>i. py_int16 (slice hex_str i (i + 2))) (map (\<lambda>k. 2 * k) [0 ..< 16])) of
        None \<Rightarrow> Inl BuiltinValueError
      | Some bs \<Rightarrow> Inr bs)"

definition hex_to_uuid :: "string \<Rightarrow> error + int list" where
  \<comment> \<open>\<open>Cursor._hex_to_uuid\<close>\<close>
  "hex_to_uuid hex_str =
     (let hex_str = replace hex_str ''-'' ''''
      in if length hex_str \<noteq> 32
         then Inl (ProgrammingError (''Invalid UUID hex string: '' @ hex_str))
         else hex_pairs hex_str)"

definition client_hex_to_uuid :: "string \<Rightarrow> error + int list" where
  \<comment> \<open>\<open>OrmdbClient._hex_to_uuid\<close>\<close>
  "client_hex_to_uuid hex_str =
     (if length hex_str \<noteq> 32
      then Inl (ValueError (''Invalid UUID hex string length: '' @ decimal (length hex_str)))
      else hex_pairs hex_str)"

fun pair_bytes :: "nat list \<Rightarrow> int list" where
  \<comment> \<open>consecutive digit values paired into bytes, the more significant digit first\<close>
  "pair_bytes (hi # lo # ds) = int (16 * hi + lo) # pair_bytes ds"
| "pair_bytes _ = []"

definition remove_hyphens :: "string \<Rightarrow> string" where
  \<comment> \<open>hyphen removal as the specification words it, to compare with \<open>replace\<close>\<close>
  "remove_hyphens s = filter (\<lambda>c. c \<noteq> CHR ''-'') s"

section \<open>The cursor\<close>

text \<open>
  The fields of \<open>Cursor\<close>. A row is the tuple of its cell values, of any type \<open>'v\<close>.
  An entry of \<open>description\<close> is a 7-tuple whose first component is the column name and
  whose other components are always \<open>None\<close>: only the name is kept. \<open>_row_index\<close> starts
  at 0 and is only ever increased or set to a length, so it is a natural number. The
  connection of the cursor is the transport passed to \<open>execute\<close>.
\<close>

record 'v cursor =
  description :: "string list option"
  rowcount :: int
  arraysize :: int
  rows :: "'v list list"
  row_index :: nat
  closed :: bool
  last_inserted_id :: "string option"

definition new_cursor :: "'v cursor" where
  \<comment> \<open>\<open>Cursor.__init__\<close>\<close>
  "new_cursor = \<lparr>description = None, rowcount = - 1, arraysize = 1, rows = [],
                  row_index = 0, closed = False, last_inserted_id = None\<rparr>"

definition close :: "'v cursor \<Rightarrow> 'v cursor" where
  "close c = c\<lparr>closed := True, rows := []\<rparr>"

definition slice_to :: "'a list \<Rightarrow> nat \<Rightarrow> int \<Rightarrow> 'a list" where
  \<comment> \<open>\<open>xs[start:stop]\<close> for a non-negative \<open>start\<close> and any integer \<open>stop\<close>: a negative
      \<open>stop\<close> counts from the end, and both bounds are clamped to the list\<close>
  "slice_to xs start stop =
     (let n = int (length xs);
          stop' = (if stop < 0 then max 0 (stop + n) else min stop n);
          start' = min (int start) n
      in if start' < stop' then take (nat (stop' - start')) (drop (nat start') xs) else [])"

definition fetchone :: "'v cursor \<Rightarrow> 'v list option \<times> 'v cursor" where
  "fetchone c =
     (if row_index c < length (rows c)
      then (Some (rows c ! row_index c), c\<lparr>row_index := row_index c + 1\<rparr>)
      else (None, c))"

definition fetchmany :: "int option \<Rightarrow> 'v cursor \<Rightarrow> 'v list list \<times> 'v cursor" where
  "fetchmany sz c =
     (let sz' = (case sz of None \<Rightarrow> arraysize c | Some n \<Rightarrow> n);
          rs = slice_to (rows c) (row_index c) (int (row_index c) + sz')
      in (rs, c\<lparr>row_index := row_index c + length rs\<rparr>))"

definition fetchall :: "'v cursor \<Rightarrow> 'v list list \<times> 'v cursor" where
  "fetchall c = (drop (row_index c) (rows c), c\<lparr>row_index := length (rows c)\<rparr>)"

text \<open>
  A caller's loop: \<open>fetchmany(n)\<close> again and again until it returns an empty list; the
  result is the list of the batches returned, in call order, and the cursor left behind.
\<close>

function fetchmany_until_empty :: "int \<Rightarrow> 'v cursor \<Rightarrow> 'v list list list \<times> 'v cursor" where
  "fetchmany_until_empty n c =
     (if fst (fetchmany (Some n) c) = [] then ([], snd (fetchmany (Some n) c))
      else (fst (fetchmany (Some n) c)
              # fst (fetchmany_until_empty n (snd (fetchmany (Some n) c))),
            snd (fetchmany_until_empty n (snd (fetchmany (Some n) c)))))"
  by pat_completeness auto
termination
  by (relation "measure (\<lambda>(n, c). length (rows c) - row_index c)")
     (auto simp: fetchmany_def slice_to_def Let_def split: if_splits)

declare fetchmany_until_empty.simps [simp del]

section \<open>Literals\<close>

definition quoted :: "string \<Rightarrow> bool" where
  \<comment> \<open>starts and ends with a single quote, or starts and ends with a double quote\<close>
  "quoted s = ((startswith s [CHR 0x27] \<and> endswith s [CHR 0x27])
               \<or> (startswith s [CHR 0x22] \<and> endswith s [CHR 0x22]))"

definition parse_sql_value :: "string \<Rightarrow> pyval" where
  \<comment> \<open>\<open>Cursor._parse_sql_value\<close>; \<open>value_str[1:-1]\<close> drops the first and the last character\<close>
  "parse_sql_value value_str =
     (let value_str = strip value_str
      in if quoted value_str then PStr (butlast (drop 1 value_str))
         else if upper value_str = ''NULL'' then PNone
         else if upper value_str = ''TRUE'' then PBool True
         else if upper value_str = ''FALSE'' then PBool False
         else if contains value_str ''.''
         then (if py_float_ok value_str then PFloat value_str else PStr value_str)
         else (case py_int value_str of
                 Some i \<Rightarrow> PInt i
               | None \<Rightarrow> PStr value_str))"

definition literal_in_spec_order :: "string \<Rightarrow> pyval" where
  \<comment> \<open>the classification as the specification words it, to compare with
      \<open>parse_sql_value\<close>: quoted string, NULL, TRUE or FALSE, then an integer parse, then a
      floating-point parse, else the bare token\<close>
  "literal_in_spec_order value_str =
     (let value_str = strip value_str
      in if quoted value_str then PStr (butlast (drop 1 value_str))
         else if upper value_str = ''NULL'' then PNone
         else if upper value_str = ''TRUE'' then PBool True
         else if upper value_str = ''FALSE'' then PBool False
         else (case py_int value_str of
                 Some i \<Rightarrow> PInt i
               | None \<Rightarrow> if py_float_ok value_str then PFloat value_str
                         else PStr value_str))"

fun parse_value_list_loop ::
  "string \<Rightarrow> pyval list \<Rightarrow> string \<Rightarrow> bool \<Rightarrow> char option \<Rightarrow> pyval list \<times> string" where
  \<comment> \<open>the \<open>for char in values_str\<close> loop of \<open>_parse_value_list\<close>, over the rest of the
      text, with \<open>values\<close>, \<open>current\<close>, \<open>in_quotes\<close> and \<open>quote_char\<close>\<close>
  "parse_value_list_loop [] values current in_quotes quote_char = (values, current)"
| "parse_value_list_loop (c # cs) values current in_quotes quote_char =
     (if (c = CHR 0x27 \<or> c = CHR 0x22) \<and> \<not> in_quotes
      then parse_value_list_loop cs values (current @ [c]) True (Some c)
      else if Some c = quote_char \<and> in_quotes
      then parse_value_list_loop cs values (current @ [c]) False None
      else if c = CHR '','' \<and> \<not> in_quotes
      then parse_value_list_loop cs (values @ [parse_sql_value (strip current)]) [] in_quotes
             quote_char
      else parse_value_list_loop cs values (current @ [c]) in_quotes quote_char)"

definition parse_value_list :: "string \<Rightarrow> pyval list" where
  \<comment> \<open>\<open>Cursor._parse_value_list\<close>\<close>
  "parse_value_list values_str =
     (let (values, current) = parse_value_list_loop values_str [] [] False None
      in if strip current \<noteq> [] then values @ [parse_sql_value (strip current)] else values)"

section \<open>Regular expressions\<close>

text \<open>
  The statement shapes are matched with \<open>re.match\<close>: the pattern is tried at the start of
  the text only, by backtracking, and need not reach the end of the text. \<open>matches\<close> lists
  every way a pattern matches at the start of a text, in the order backtracking tries them
  (a greedy repetition first takes as much as it can, an alternation tries its left side
  first), each with the groups captured so far and the text left; \<open>re.match\<close> returns the
  first of them.
\<close>

datatype regex =
    Chr "char \<Rightarrow> bool"    \<comment> \<open>one character of a class\<close>
  | Eps
  | Seq regex regex
  | Alt regex regex
  | Star regex            \<comment> \<open>greedy \<open>r*\<close>\<close>
  | Grp nat regex         \<comment> \<open>capturing group number \<open>n\<close>\<close>

type_synonym mstate = "(nat \<times> string) list \<times> string"

fun matches :: "regex \<Rightarrow> mstate \<Rightarrow> mstate list" where
  "matches (Chr p) (caps, s) =
     (case s of [] \<Rightarrow> [] | c # cs \<Rightarrow> if p c then [(caps, cs)] else [])"
| "matches Eps st = [st]"
| "matches (Seq a b) st = concat (map (matches b) (matches a st))"
| "matches (Alt a b) st = matches a st @ matches b st"
| "matches (Star r) (caps, s) =
     concat (map (\<lambda>st'. if length (snd st') < length s then matches (Star r) st' else [])
                 (matches r (caps, s)))
     @ [(caps, s)]"
| "matches (Grp n r) (caps, s) =
     map (\<lambda>st'. ((n, take (length s - length (snd st')) s) # fst st', snd st'))
         (matches r (caps, s))"

definition re_match :: "regex \<Rightarrow> string \<Rightarrow> (nat \<times> string) list option" where
  \<comment> \<open>\<open>re.match(pattern, s)\<close>: the groups of the first match, or \<open>None\<close>\<close>
  "re_match r s = (case matches r ([], s) of [] \<Rightarrow> None | st # _ \<Rightarrow> Some (fst st))"

definition group :: "(nat \<times> string) list \<Rightarrow> nat \<Rightarrow> string" where
  \<comment> \<open>\<open>match.group(n)\<close>, for a group that took part in the match\<close>
  "group caps n = (case map_of caps n of Some g \<Rightarrow> g | None \<Rightarrow> [])"

definition Plus :: "regex \<Rightarrow> regex" where
  "Plus r = Seq r (Star r)"

definition Opt :: "regex \<Rightarrow> regex" where
  "Opt r = Alt r Eps"

definition Lit :: "char \<Rightarrow> regex" where
  \<comment> \<open>a literal character under \<open>re.IGNORECASE\<close>\<close>
  "Lit c = Chr (\<lambda>x. upper_char x = upper_char c)"

definition Word :: "string \<Rightarrow> regex" where
  "Word w = foldr (\<lambda>c r. Seq (Lit c) r) w Eps"

definition Seqs :: "regex list \<Rightarrow> regex" where
  "Seqs rs = foldr Seq rs Eps"

definition Alts :: "regex list \<Rightarrow> regex" where
  \<comment> \<open>\<open>r1|r2|...\<close> for at least one alternative\<close>
  "Alts rs = foldr Alt (butlast rs) (last rs)"

definition spaces :: regex where
  \<comment> \<open>\<open>\s*\<close>\<close>
  "spaces = Star (Chr is_space)"

definition spaces1 :: regex where
  \<comment> \<open>\<open>\s+\<close>\<close>
  "spaces1 = Plus (Chr is_space)"

definition word1 :: regex where
  \<comment> \<open>\<open>\w+\<close>\<close>
  "word1 = Plus (Chr is_word)"

definition any1 :: regex where
  \<comment> \<open>\<open>.+\<close>: the dot matches every character but the newline\<close>
  "any1 = Plus (Chr (\<lambda>c. c \<noteq> CHR 0x0A))"

definition quote_opt :: regex where
  \<comment> \<open>\<open>['\"]?\<close>\<close>
  "quote_opt = Opt (Chr (\<lambda>c. c = CHR 0x27 \<or> c = CHR 0x22))"

definition unquoted1 :: regex where
  \<comment> \<open>\<open>[^'\"]+\<close>\<close>
  "unquoted1 = Plus (Chr (\<lambda>c. c \<noteq> CHR 0x27 \<and> c \<noteq> CHR 0x22))"

definition unparen1 :: regex where
  \<comment> \<open>\<open>[^)]+\<close>\<close>
  "unparen1 = Plus (Chr (\<lambda>c. c \<noteq> CHR '')''))"

definition where_re :: regex where
  \<comment> \<open>\<open>(\w+)\s*(=|!=|<>|<=|>=|<|>|LIKE|IN)\s*(.+)\<close>\<close>
  "where_re =
     Seqs [Grp 1 word1, spaces,
           Grp 2 (Alts [Word ''='', Word ''!='', Word ''<>'', Word ''<='', Word ''>='',
                        Word ''<'', Word ''>'', Word ''LIKE'', Word ''IN'']),
           spaces, Grp 3 any1]"

definition insert_re :: regex where
  \<comment> \<open>\<open>INSERT\s+INTO\s+(\w+)\s*\(([^)]+)\)\s*VALUES\s*\(([^)]+)\)\<close>\<close>
  "insert_re =
     Seqs [Word ''INSERT'', spaces1, Word ''INTO'', spaces1, Grp 1 word1, spaces,
           Word ''('', Grp 2 unparen1, Word '')'', spaces, Word ''VALUES'', spaces,
           Word ''('', Grp 3 unparen1, Word '')'']"

definition where_id_re :: "nat \<Rightarrow> regex" where
  \<comment> \<open>\<open>\s+WHERE\s+id\s*=\s*['\"]?([^'\"]+)['\"]?\<close>, the end of the UPDATE and DELETE
      patterns, with the number of its group\<close>
  "where_id_re n =
     Seqs [spaces1, Word ''WHERE'', spaces1, Word ''id'', spaces, Word ''='', spaces,
           quote_opt, Grp n unquoted1, quote_opt]"

definition update_re :: regex where
  \<comment> \<open>\<open>UPDATE\s+(\w+)\s+SET\s+(.+)\s+WHERE\s+id\s*=\s*['\"]?([^'\"]+)['\"]?\<close>\<close>
  "update_re =
     Seqs [Word ''UPDATE'', spaces1, Grp 1 word1, spaces1, Word ''SET'', spaces1,
           Grp 2 any1, where_id_re 3]"

definition delete_re :: regex where
  \<comment> \<open>\<open>DELETE\s+FROM\s+(\w+)\s+WHERE\s+id\s*=\s*['\"]?([^'\"]+)['\"]?\<close>\<close>
  "delete_re =
     Seqs [Word ''DELETE'', spaces1, Word ''FROM'', spaces1, Grp 1 word1, where_id_re 2]"

section \<open>The statement parser\<close>

record filter_expr =
  field :: string
  op :: string
  val :: pyval

definition op_map :: "(string \<times> string) list" where
  "op_map = [(''='', ''eq''), (''!='', ''ne''), (''<>'', ''ne''), (''<'', ''lt''),
             (''>'', ''gt''), (''<='', ''le''), (''>='', ''ge''), (''LIKE'', ''like''),
             (''IN'', ''in'')]"

definition parse_where :: "string \<Rightarrow> error + filter_expr" where
  \<comment> \<open>\<open>Cursor._parse_where\<close>\<close>
  "parse_where where_clause =
     (case re_match where_re where_clause of
        None \<Rightarrow> Inl (ProgrammingError (''Cannot parse WHERE clause: '' @ where_clause))
      | Some m \<Rightarrow>
          (let fld = group m 1;
               oper = upper (group m 2);
               value_str = strip (group m 3);
               ormdb_op = (case map_of op_map oper of Some name \<Rightarrow> name | None \<Rightarrow> ''eq'');
               v = parse_sql_value value_str
           in Inr \<lparr>field = fld, op = ormdb_op, val = v\<rparr>))"

definition first_match :: "regex \<Rightarrow> mstate \<Rightarrow> mstate option" where
  \<comment> \<open>the match that backtracking finds first\<close>
  "first_match r st = (case matches r st of [] \<Rightarrow> None | x # _ \<Rightarrow> Some x)"

section \<open>Dictionaries\<close>

text \<open>
  A Python \<open>dict\<close> keeps its keys in the order of their first insertion, and an assignment
  to a key that is present replaces the value where the key stands. It is modelled as the
  list of its items.
\<close>

fun dict_set :: "'k \<Rightarrow> 'a \<Rightarrow> ('k \<times> 'a) list \<Rightarrow> ('k \<times> 'a) list" where
  \<comment> \<open>\<open>d[k] = v\<close>\<close>
  "dict_set k v [] = [(k, v)]"
| "dict_set k v (kv # d) = (if fst kv = k then (k, v) # d else kv # dict_set k v d)"

definition py_dict :: "('k \<times> 'a) list \<Rightarrow> ('k \<times> 'a) list" where
  \<comment> \<open>\<open>dict(pairs)\<close>: the pairs assigned one after the other to an empty dict\<close>
  "py_dict pairs = foldl (\<lambda>d kv. dict_set (fst kv) (snd kv) d) [] pairs"

section \<open>Statements\<close>

definition parse_order_by :: "string \<Rightarrow> (string \<times> string) list" where
  \<comment> \<open>\<open>Cursor._parse_order_by\<close>: the pairs of field and direction\<close>
  "parse_order_by order_clause =
     map (\<lambda>part.
            (let part = strip part
             in if contains (upper part) '' DESC''
                then (strip (replace (upper part) '' DESC'' ''''), ''desc'')
                else if contains (upper part) '' ASC''
                then (strip (replace (upper part) '' ASC'' ''''), ''asc'')
                else (part, ''asc'')))
         (split_on CHR '','' order_clause)"

definition min_found :: "nat option list \<Rightarrow> nat \<Rightarrow> nat" where
  \<comment> \<open>\<open>min([i for i in idxs if i != -1] or [dflt])\<close>\<close>
  "min_found idxs dflt =
     (case concat (map (\<lambda>i. case i of None \<Rightarrow> [] | Some n \<Rightarrow> [n]) idxs) of
        [] \<Rightarrow> dflt
      | n # ns \<Rightarrow> fold min ns n)"

definition limit_clause :: "string \<Rightarrow> nat option \<Rightarrow> error + (int option \<times> int option)" where
  \<comment> \<open>the block \<open>if limit_idx != -1\<close> of \<open>_parse_select\<close>: \<open>limit\<close> and \<open>offset\<close> after it\<close>
  "limit_clause remaining limit_idx =
     (case limit_idx of
        None \<Rightarrow> Inr (None, None)
      | Some l \<Rightarrow>
          (let limit_str = strip (drop (l + 7) remaining)
           in case find (upper limit_str) '' OFFSET '' of
                Some offset_in_limit \<Rightarrow>
                  (case py_int (strip (take offset_in_limit limit_str)) of
                     None \<Rightarrow> Inl BuiltinValueError
                   | Some lim \<Rightarrow>
                       (case py_int (strip (drop (offset_in_limit + 8) limit_str)) of
                          None \<Rightarrow> Inl BuiltinValueError
                        | Some off \<Rightarrow> Inr (Some lim, Some off)))
              | None \<Rightarrow>
                  (case first_word limit_str of
                     None \<Rightarrow> Inl IndexError
                   | Some w \<Rightarrow>
                       (case py_int w of
                          None \<Rightarrow> Inl BuiltinValueError
                        | Some lim \<Rightarrow> Inr (Some lim, None)))))"

definition offset_clause :: "string \<Rightarrow> nat option \<Rightarrow> int option \<Rightarrow> error + int option" where
  \<comment> \<open>the block \<open>if offset_idx != -1 and offset is None\<close> of \<open>_parse_select\<close>\<close>
  "offset_clause remaining offset_idx offset =
     (case offset_idx of
        None \<Rightarrow> Inr offset
      | Some k \<Rightarrow>
          if offset = None
          then (case first_word (strip (drop (k + 8) remaining)) of
                  None \<Rightarrow> Inl IndexError
                | Some w \<Rightarrow>
                    (case py_int w of
                       None \<Rightarrow> Inl BuiltinValueError
                     | Some off \<Rightarrow> Inr (Some off)))
          else Inr offset)"

type_synonym select_parts =
  "string \<times> string list \<times> filter_expr option \<times> (string \<times> string) list option
   \<times> int option \<times> int option"

definition parse_select :: "string \<Rightarrow> error + select_parts" where
  \<comment> \<open>\<open>Cursor._parse_select\<close>: entity, fields, filter, order, limit and offset. The
      indices are found in the upper-case text and used on the text itself, as the
      source does.\<close>
  "parse_select sql0 =
     (let sql = strip (drop 6 sql0)
      in case find (upper sql) '' FROM '' of
           None \<Rightarrow> Inl (ProgrammingError ''Invalid SELECT: missing FROM clause'')
         | Some from_idx \<Rightarrow>
             (let fields_str = strip (take from_idx sql);
                  fields = map strip (split_on CHR '','' fields_str);
                  remaining = strip (drop (from_idx + 6) sql);
                  where_idx = find (upper remaining) '' WHERE '';
                  order_idx = find (upper remaining) '' ORDER BY '';
                  limit_idx = find (upper remaining) '' LIMIT '';
                  offset_idx = find (upper remaining) '' OFFSET '';
                  entity_end = min_found [where_idx, order_idx, limit_idx] (length remaining);
                  entity = strip (take entity_end remaining)
              in case (case where_idx of
                         None \<Rightarrow> Inr None
                       | Some w \<Rightarrow>
                           (let where_end = min_found [order_idx, limit_idx] (length remaining);
                                where_clause = strip (slice remaining (w + 7) where_end)
                            in case parse_where where_clause of
                                 Inl e \<Rightarrow> Inl e
                               | Inr f \<Rightarrow> Inr (Some f))) of
                   Inl e \<Rightarrow> Inl e
                 | Inr filter_expr \<Rightarrow>
                     (let order_by =
                            (case order_idx of
                               None \<Rightarrow> None
                             | Some oi \<Rightarrow>
                                 (let order_end = (case limit_idx of
                                                     Some l \<Rightarrow> l
                                                   | None \<Rightarrow> length remaining);
                                      order_clause = strip (slice remaining (oi + 10) order_end)
                                  in Some (parse_order_by order_clause)))
                      in case limit_clause remaining limit_idx of
                           Inl e \<Rightarrow> Inl e
                         | Inr (limit, offset) \<Rightarrow>
                             (case offset_clause remaining offset_idx offset of
                                Inl e \<Rightarrow> Inl e
                              | Inr offset \<Rightarrow>
                                  Inr (entity, fields, filter_expr, order_by, limit,
                                       offset)))))"

definition parse_insert :: "string \<Rightarrow> error + string \<times> (string \<times> pyval) list" where
  \<comment> \<open>\<open>Cursor._parse_insert\<close>: the entity and the dict of the data\<close>
  "parse_insert sql =
     (case re_match insert_re sql of
        None \<Rightarrow> Inl (ProgrammingError (''Cannot parse INSERT: '' @ sql))
      | Some m \<Rightarrow>
          (let entity = group m 1;
               fields = map strip (split_on CHR '','' (group m 2));
               values_str = group m 3;
               values = parse_value_list values_str
           in if length fields \<noteq> length values
              then Inl (ProgrammingError
                          (''Field count doesn'' @ [CHR 0x27] @ ''t match value count''))
              else Inr (entity, py_dict (zip fields values))))"

fun set_assignments ::
  "string list \<Rightarrow> (string \<times> pyval) list \<Rightarrow> error + (string \<times> pyval) list" where
  \<comment> \<open>the loop \<open>for assignment in set_clause.split(",")\<close> of \<open>_parse_update\<close>, over the
      assignments left, with \<open>data\<close>; an assignment without \<open>=\<close> fails to unpack\<close>
  "set_assignments [] data = Inr data"
| "set_assignments (assignment # rest) data =
     (case split_once CHR ''='' assignment of
        [fld, value_str] \<Rightarrow>
          set_assignments rest
            (dict_set (strip fld) (parse_sql_value (strip value_str)) data)
      | _ \<Rightarrow> Inl BuiltinValueError)"

definition parse_update :: "string \<Rightarrow> error + string \<times> string \<times> (string \<times> pyval) list" where
  \<comment> \<open>\<open>Cursor._parse_update\<close>: the entity, the identifier and the dict of the data\<close>
  "parse_update sql =
     (case re_match update_re sql of
        None \<Rightarrow> Inl (ProgrammingError (''Cannot parse UPDATE: '' @ sql))
      | Some m \<Rightarrow>
          (let entity = group m 1;
               set_clause = group m 2;
               entity_id = strip (group m 3)
           in case set_assignments (split_on CHR '','' set_clause) [] of
                Inl e \<Rightarrow> Inl e
              | Inr data \<Rightarrow> Inr (entity, entity_id, data)))"

definition parse_delete :: "string \<Rightarrow> error + string \<times> string" where
  \<comment> \<open>\<open>Cursor._parse_delete\<close>\<close>
  "parse_delete sql =
     (case re_match delete_re sql of
        None \<Rightarrow> Inl (ProgrammingError (''Cannot parse DELETE: '' @ sql))
      | Some m \<Rightarrow> Inr (group m 1, strip (group m 2)))"

section \<open>Payloads\<close>

text \<open>
  The JSON bodies sent to the gateway. A key that the code leaves out of the object is
  \<open>None\<close> here. The bodies of the cursor and of the client differ in the type of the
  filter and of the ordering, and the client has one key more.
\<close>

record ('f, 'o) query_payload =
  root_entity :: string
  fields_key :: "string list option"    \<comment> \<open>\<open>"fields"\<close>\<close>
  filter_expression :: "'f option"    \<comment> \<open>\<open>"filter": {"expression": ...}\<close>\<close>
  order_by :: "'o list option"
  pagination :: "(int \<times> int) option"  \<comment> \<open>\<open>"pagination": {"limit": ..., "offset": ...}\<close>\<close>

record ('f, 'o, 'i) client_query_payload = "('f, 'o) query_payload" +
  includes_key :: "'i list option"    \<comment> \<open>\<open>"includes"\<close>\<close>

datatype mutation =
    Insert string "(string \<times> wire) list"              \<comment> \<open>entity, data\<close>
  | Update string "int list" "(string \<times> wire) list"   \<comment> \<open>entity, id, data\<close>
  | Delete string "int list"                           \<comment> \<open>entity, id\<close>

definition truthy :: "'a list option \<Rightarrow> 'a list option" where
  \<comment> \<open>\<open>if x:\<close> for an optional list or dict: it is given and not empty\<close>
  "truthy x = (case x of Some (a # as) \<Rightarrow> Some (a # as) | _ \<Rightarrow> None)"

definition or_default :: "int option \<Rightarrow> int \<Rightarrow> int" where
  \<comment> \<open>\<open>x or d\<close> for an optional integer: \<open>d\<close> when \<open>x\<close> is \<open>None\<close> or 0\<close>
  "or_default x d = (case x of None \<Rightarrow> d | Some n \<Rightarrow> if n = 0 then d else n)"

definition paginate :: "int option \<Rightarrow> int option \<Rightarrow> (int \<times> int) option" where
  \<comment> \<open>the pagination block, the same text in \<open>Cursor._execute_query\<close> and in
      \<open>OrmdbClient.query\<close>\<close>
  "paginate limit offset =
     (if limit \<noteq> None \<or> offset \<noteq> None
      then Some (or_default limit 100, or_default offset 0)
      else None)"

definition select_payload :: "select_parts \<Rightarrow> (filter_expr, string \<times> string) query_payload" where
  \<comment> \<open>the payload that \<open>Cursor._execute_query\<close> builds from the parsed statement\<close>
  "select_payload parts =
     (case parts of (entity, field_names, filter_expr, order_list, limit, offset) \<Rightarrow>
        \<lparr>root_entity = entity,
         fields_key = (if field_names \<noteq> [] \<and> field_names \<noteq> [''*'']
                       then Some field_names else None),
         filter_expression = filter_expr,
         order_by = truthy order_list,
         pagination = paginate limit offset\<rparr>)"

definition query ::
  "string \<Rightarrow> string list option \<Rightarrow> (string \<times> 'a) list option \<Rightarrow> 'i list option
   \<Rightarrow> 'o list option \<Rightarrow> int option \<Rightarrow> int option
   \<Rightarrow> ((string \<times> 'a) list, 'o, 'i) client_query_payload" where
  \<comment> \<open>the payload that \<open>OrmdbClient.query\<close> builds from its arguments\<close>
  "query entity field_names filter_arg include_list order_list limit offset =
     \<lparr>root_entity = entity,
      fields_key = truthy field_names,
      filter_expression = truthy filter_arg,
      order_by = truthy order_list,
      pagination = paginate limit offset,
      includes_key = truthy include_list\<rparr>"

definition data_list :: "(pyval \<Rightarrow> string) \<Rightarrow> (string \<times> pyval) list \<Rightarrow> (string \<times> wire) list" where
  \<comment> \<open>\<open>[{"field": k, "value": self._convert_value(v)} for k, v in data.items()]\<close>\<close>
  "data_list py_str data = map (\<lambda>kv. (fst kv, convert_value py_str (snd kv))) data"

definition insert_payload :: "(pyval \<Rightarrow> string) \<Rightarrow> string \<Rightarrow> error + mutation" where
  \<comment> \<open>the payload that \<open>Cursor._execute_insert\<close> builds\<close>
  "insert_payload py_str sql =
     (case parse_insert sql of
        Inl e \<Rightarrow> Inl e
      | Inr (entity, data) \<Rightarrow> Inr (Insert entity (data_list py_str data)))"

definition update_payload :: "(pyval \<Rightarrow> string) \<Rightarrow> string \<Rightarrow> error + mutation" where
  \<comment> \<open>the payload that \<open>Cursor._execute_update\<close> builds\<close>
  "update_payload py_str sql =
     (case parse_update sql of
        Inl e \<Rightarrow> Inl e
      | Inr (entity, entity_id, data) \<Rightarrow>
          (case hex_to_uuid entity_id of
             Inl e \<Rightarrow> Inl e
           | Inr uuid \<Rightarrow> Inr (Update entity uuid (data_list py_str data))))"

definition delete_payload :: "string \<Rightarrow> error + mutation" where
  \<comment> \<open>the payload that \<open>Cursor._execute_delete\<close> builds\<close>
  "delete_payload sql =
     (case parse_delete sql of
        Inl e \<Rightarrow> Inl e
      | Inr (entity, entity_id) \<Rightarrow>
          (case hex_to_uuid entity_id of
             Inl e \<Rightarrow> Inl e
           | Inr uuid \<Rightarrow> Inr (Delete entity uuid)))"

section \<open>Execution\<close>

text \<open>
  The connection of a cursor is its transport: a post to \<open>/query\<close> and a post to
  \<open>/mutate\<close>, each followed by \<open>raise_for_status\<close> and \<open>json\<close>. It returns the
  decoded body of the response, or the exception raised: \<open>HTTPError\<close> with its text
  for an \<open>httpx.HTTPError\<close>, any other error otherwise (a body that is not JSON). A
  decoded body has the shape that the code reads: every key read with \<open>get\<close> and a
  default may be absent (\<open>None\<close>), a row is a dict of cell values in key order. What
  the code does with a body of another shape is not modelled.
\<close>

type_synonym 'v row_record = "(string \<times> 'v) list"

text \<open>
  The body of a query response: \<open>data\<close>, if present; in it \<open>entities\<close>, if present, a
  list of blocks; in a block \<open>rows\<close>, if present, a list of rows.
\<close>

type_synonym 'v query_result = "'v row_record list option list option option"

record mutation_result =
  affected :: "int option"
  inserted_ids :: "string list option"

record 'v connection =
  post_query :: "(filter_expr, string \<times> string) query_payload \<Rightarrow> error + 'v query_result"
  post_mutate :: "mutation \<Rightarrow> error + mutation_result"

definition reset :: "'v cursor \<Rightarrow> 'v cursor" where
  \<comment> \<open>the block \<open># Reset state\<close> of \<open>Cursor.execute\<close>\<close>
  "reset c = c\<lparr>rows := [], row_index := 0, description := None, rowcount := - 1,
               last_inserted_id := None\<rparr>"

definition build_description_and_rows :: "'v query_result \<Rightarrow> 'v cursor \<Rightarrow> 'v cursor" where
  \<comment> \<open>the block \<open># Build description and rows from response\<close> of \<open>_execute_query\<close>\<close>
  "build_description_and_rows result c =
     (let data = (case result of Some d \<Rightarrow> d | None \<Rightarrow> None);
          blocks = (case data of Some bs \<Rightarrow> bs | None \<Rightarrow> []);
          entities = concat (map (\<lambda>block. case block of Some rs \<Rightarrow> rs | None \<Rightarrow> []) blocks);
          c = (if entities \<noteq> []
               then c\<lparr>description := Some (map fst (hd entities)),
                      rows := map (map snd) entities\<rparr>
               else c\<lparr>rows := []\<rparr>)
      in c\<lparr>rowcount := int (length (rows c))\<rparr>)"

definition execute_query :: "'v connection \<Rightarrow> string \<Rightarrow> 'v cursor \<Rightarrow> error option \<times> 'v cursor" where
  \<comment> \<open>\<open>Cursor._execute_query\<close>: the exception raised, if any, and the cursor left\<close>
  "execute_query conn sql c =
     (case parse_select sql of
        Inl e \<Rightarrow> (Some e, c)
      | Inr parts \<Rightarrow>
          (case post_query conn (select_payload parts) of
             Inl e \<Rightarrow> (Some e, c)
           | Inr result \<Rightarrow> (None, build_description_and_rows result c)))"

definition execute_insert ::
  "'v connection \<Rightarrow> (pyval \<Rightarrow> string) \<Rightarrow> string \<Rightarrow> 'v cursor \<Rightarrow> error option \<times> 'v cursor" where
  \<comment> \<open>\<open>Cursor._execute_insert\<close>\<close>
  "execute_insert conn py_str sql c =
     (case insert_payload py_str sql of
        Inl e \<Rightarrow> (Some e, c)
      | Inr payload \<Rightarrow>
          (case post_mutate conn payload of
             Inl e \<Rightarrow> (Some e, c)
           | Inr result \<Rightarrow>
               (let c = c\<lparr>rowcount := (case affected result of Some n \<Rightarrow> n | None \<Rightarrow> 0)\<rparr>
                in (None, case inserted_ids result of
                            Some (i # _) \<Rightarrow> c\<lparr>last_inserted_id := Some i\<rparr>
                          | _ \<Rightarrow> c))))"

definition execute_update ::
  "'v connection \<Rightarrow> (pyval \<Rightarrow> string) \<Rightarrow> string \<Rightarrow> 'v cursor \<Rightarrow> error option \<times> 'v cursor" where
  \<comment> \<open>\<open>Cursor._execute_update\<close>\<close>
  "execute_update conn py_str sql c =
     (case update_payload py_str sql of
        Inl e \<Rightarrow> (Some e, c)
      | Inr payload \<Rightarrow>
          (case post_mutate conn payload of
             Inl e \<Rightarrow> (Some e, c)
           | Inr result \<Rightarrow>
               (None, c\<lparr>rowcount := (case affected result of Some n \<Rightarrow> n | None \<Rightarrow> 0)\<rparr>)))"

definition execute_delete :: "'v connection \<Rightarrow> string \<Rightarrow> 'v cursor \<Rightarrow> error option \<times> 'v cursor" where
  \<comment> \<open>\<open>Cursor._execute_delete\<close>\<close>
  "execute_delete conn sql c =
     (case delete_payload sql of
        Inl e \<Rightarrow> (Some e, c)
      | Inr payload \<Rightarrow>
          (case post_mutate conn payload of
             Inl e \<Rightarrow> (Some e, c)
           | Inr result \<Rightarrow>
               (None, c\<lparr>rowcount := (case affected result of Some n \<Rightarrow> n | None \<Rightarrow> 0)\<rparr>)))"

definition execute ::
  "'v connection \<Rightarrow> (string \<Rightarrow> (string \<times> pyval) list \<Rightarrow> error + string) \<Rightarrow> (pyval \<Rightarrow> string)
   \<Rightarrow> string \<Rightarrow> (string \<times> pyval) list option \<Rightarrow> 'v cursor \<Rightarrow> error option \<times> 'v cursor" where
  \<comment> \<open>\<open>Cursor.execute\<close>: the exception raised, if any, and the cursor left. \<open>fmt\<close> is
      Python's \<open>operation % parameters\<close>, which may raise; \<open>py_str\<close> is Python's \<open>str\<close>.
      The last \<open>case\<close> is the \<open>except httpx.HTTPError\<close> around the dispatch.\<close>
  "execute conn fmt py_str operation parameters c =
     (if closed c then (Some (InterfaceError ''Cursor is closed''), c)
      else
        (let c = reset c;
             operation = strip operation
         in case (case parameters of
                    Some (p # ps) \<Rightarrow> fmt operation (p # ps)
                  | _ \<Rightarrow> Inr operation) of
              Inl e \<Rightarrow> (Some e, c)
            | Inr operation \<Rightarrow>
                (case (if startswith (upper operation) ''SELECT''
                       then execute_query conn operation c
                       else if startswith (upper operation) ''INSERT''
                       then execute_insert conn py_str operation c
                       else if startswith (upper operation) ''UPDATE''
                       then execute_update conn py_str operation c
                       else if startswith (upper operation) ''DELETE''
                       then execute_delete conn operation c
                       else if startswith (upper operation) ''--''
                       then (None, c)
                       else (Some (ProgrammingError
                                     (''Unsupported operation: '' @ operation)), c)) of
                   (Some (HTTPError msg), c') \<Rightarrow>
                     (Some (OperationalError (''HTTP error: '' @ msg)), c')
                 | r \<Rightarrow> r)))"

section \<open>Properties\<close>

subsection \<open>Value codec\<close>

lemma as_int_PInt: "as_bool (PInt v) = None \<and> as_int (PInt v) = Some v"
  by simp

text \<open>
  C1: for every Python integer \<open>v\<close> both value codecs tag the wire value \<open>Int32\<close> exactly
  when \<open>v\<close> lies in the interval from \<open>-2^31\<close> (included) to \<open>2^31\<close> (excluded), and
  \<open>Int64\<close> with the same payload otherwise.
\<close>

theorem convert_value_int:
  "convert_value py_str (PInt v)
     = (if - (2 ^ 31) \<le> v \<and> v < 2 ^ 31 then WInt32 v else WInt64 v)
   \<and> client_convert_value py_str (PInt v)
     = (if - (2 ^ 31) \<le> v \<and> v < 2 ^ 31 then WInt32 v else WInt64 v)
   \<and> ((\<exists>p. convert_value py_str (PInt v) = WInt32 p) = (- (2 ^ 31) \<le> v \<and> v < 2 ^ 31))
   \<and> ((\<exists>p. client_convert_value py_str (PInt v) = WInt32 p) = (- (2 ^ 31) \<le> v \<and> v < 2 ^ 31))"
  by (simp add: convert_value_def client_convert_value_def int_tag_def)

theorem convert_value_int_witness:
  "convert_value (\<lambda>v. []) (PInt (- 2147483648)) = WInt32 (- 2147483648)
   \<and> convert_value (\<lambda>v. []) (PInt 2147483647) = WInt32 2147483647
   \<and> convert_value (\<lambda>v. []) (PInt 2147483648) = WInt64 2147483648
   \<and> client_convert_value (\<lambda>v. []) (PInt (- 2147483649)) = WInt64 (- 2147483649)"
  using convert_value_int [of "\<lambda>v. []" "- 2147483648"]
    convert_value_int [of "\<lambda>v. []" 2147483647]
    convert_value_int [of "\<lambda>v. []" 2147483648]
    convert_value_int [of "\<lambda>v. []" "- 2147483649"]
  by simp

text \<open>
  C10: a boolean is tagged \<open>Bool\<close> by both codecs, never \<open>Int32\<close> or \<open>Int64\<close>, although
  it passes the integer test too (a Python \<open>bool\<close> is an \<open>int\<close>): the boolean case is
  tested first.
\<close>

theorem convert_value_bool:
  "convert_value py_str (PBool b) = WBool b
   \<and> client_convert_value py_str (PBool b) = WBool b
   \<and> as_int (PBool b) = Some (if b then 1 else 0)
   \<and> (\<forall>i. convert_value py_str (PBool b) \<noteq> WInt32 i
          \<and> convert_value py_str (PBool b) \<noteq> WInt64 i
          \<and> client_convert_value py_str (PBool b) \<noteq> WInt32 i
          \<and> client_convert_value py_str (PBool b) \<noteq> WInt64 i)"
  by (simp add: convert_value_def client_convert_value_def)

subsection \<open>Identifiers\<close>

lemma replace_single_char: "replace s [c] [] = filter (\<lambda>x. x \<noteq> c) s"
  by (induction s) auto

lemma replace_hyphens: "replace s ''-'' '''' = remove_hyphens s"
  by (simp add: replace_single_char remove_hyphens_def)

lemma hex_digit_cases:
  assumes "digit_val 16 c = Some d"
  shows "c \<in> set ''0123456789abcdefABCDEF''"
  using assms by (auto simp: digit_val_def digit_table_def split: option.splits if_splits)

lemma hex_digit_bound: "digit_val 16 c = Some d \<Longrightarrow> d < 16"
  by (auto simp: digit_val_def split: option.splits if_splits)

lemma hex_digit_plain:
  assumes "digit_val 16 c = Some d"
  shows "\<not> is_int_space c" and "c \<noteq> CHR ''+''" and "c \<noteq> CHR ''-''" and "c \<noteq> CHR ''_''"
    and "ascii_lower_char c \<noteq> CHR ''x''"
  using hex_digit_cases[OF assms]
  by (auto simp: is_int_space_def ascii_lower_char_def ascii_uppercase_def ascii_lowercase_def)

lemma py_int16_pair:
  assumes a: "digit_val 16 a = Some da" and b: "digit_val 16 b = Some db"
  shows "py_int16 [a, b] = Some (int (16 * da + db))"
proof -
  have s: "int_strip [a, b] = [a, b]"
    using hex_digit_plain(1)[OF a] hex_digit_plain(1)[OF b]
    by (simp add: int_strip_def)
  have g: "split_sign [a, b] = (1, [a, b])"
    using hex_digit_plain(2,3)[OF a] by (simp add: split_sign_def)
  have p: "\<not> startswith (ascii_lower [a, b]) ''0x''"
    using hex_digit_plain(5)[OF b] by (simp add: ascii_lower_def)
  have d: "digitpart 16 [a, b] = Some (da * 16 + db)"
    using a b hex_digit_plain(4)[OF b] by (simp add: digitpart_def)
  show ?thesis
    by (simp add: py_int16_def s g p d)
qed

lemma those_pairs:
  assumes "length h = 2 * n" and "map (digit_val 16) h = map Some ds"
  shows "those (map (\<lambda>i. py_int16 (slice h i (i + 2))) (map (\<lambda>k. 2 * k) [0 ..< n]))
         = Some (pair_bytes ds)"
  using assms
proof (induction n arbitrary: h ds)
  case 0
  then show ?case by simp
next
  case (Suc n)
  from Suc.prems(1) obtain a b h' where h: "h = a # b # h'" and l: "length h' = 2 * n"
    by (cases h; cases "tl h") auto
  from Suc.prems(2) h obtain da db ds' where ds: "ds = da # db # ds'"
    and a: "digit_val 16 a = Some da" and b: "digit_val 16 b = Some db"
    and r: "map (digit_val 16) h' = map Some ds'"
    by (cases ds; cases "tl ds") auto
  have shift: "map (\<lambda>i. py_int16 (slice h i (i + 2))) (map (\<lambda>k. 2 * k) (map Suc [0 ..< n]))
             = map (\<lambda>i. py_int16 (slice h' i (i + 2))) (map (\<lambda>k. 2 * k) [0 ..< n])"
    by (simp add: h slice_def)
  have up: "[0 ..< Suc n] = 0 # map Suc [0 ..< n]"
    by (simp add: upt_conv_Cons map_Suc_upt del: upt_Suc)
  have hd: "py_int16 (slice h 0 2) = Some (int (16 * da + db))"
    using py_int16_pair[OF a b] by (simp add: h slice_def)
  have e: "map (\<lambda>i. py_int16 (slice h i (i + 2))) (map (\<lambda>k. 2 * k) [0 ..< Suc n])
         = py_int16 (slice h 0 2)
           # map (\<lambda>i. py_int16 (slice h i (i + 2))) (map (\<lambda>k. 2 * k) (map Suc [0 ..< n]))"
    unfolding up by (simp add: numeral_2_eq_2)
  show ?case
    unfolding e shift hd using Suc.IH[OF l r]
    by (simp add: ds)
qed

lemma hex_pairs_digits:
  assumes "length h = 32" and "map (digit_val 16) h = map Some ds"
  shows "hex_pairs h = Inr (pair_bytes ds)"
  using those_pairs[of h 16 ds] assms by (simp add: hex_pairs_def)

lemma pair_bytes_range:
  "list_all (\<lambda>d. d < 16) ds \<Longrightarrow> list_all (\<lambda>b. 0 \<le> b \<and> b < 256) (pair_bytes ds)"
  by (induction ds rule: pair_bytes.induct) auto

lemma pair_bytes_length: "length (pair_bytes ds) = length ds div 2"
  by (induction ds rule: pair_bytes.induct) auto

lemma hex_digits_bounded:
  "map (digit_val 16) h = map Some ds \<Longrightarrow> list_all (\<lambda>d. d < 16) ds"
proof (induction ds arbitrary: h)
  case Nil
  then show ?case by simp
next
  case (Cons d ds)
  then obtain c h' where "h = c # h'" by (cases h) auto
  with Cons show ?case by (auto dest: hex_digit_bound)
qed

text \<open>
  C2 (counterexample): \<open>OrmdbClient._hex_to_uuid\<close>, one of the two decoders the claim
  names, removes no hyphen: an identifier of 32 hexadecimal digits written with hyphens is
  refused, and the error names the length of the string, not the string.
\<close>

theorem client_hex_to_uuid_hyphens:
  "length (remove_hyphens ''01234567-8901-2345-6789-012345678901'') = 32
   \<and> client_hex_to_uuid ''01234567-8901-2345-6789-012345678901''
       = Inl (ValueError ''Invalid UUID hex string length: 36'')"
  by (simp add: remove_hyphens_def client_hex_to_uuid_def digits_def)

text \<open>
  C2 (amended): \<open>Cursor._hex_to_uuid\<close> decodes every string that, once its hyphens are
  removed, is 32 hexadecimal digits (of values \<open>ds\<close>) into the 16 bytes pairing
  consecutive digits, the more significant first, each byte between 0 and 255; on every
  string whose length after hyphen removal is not 32 it fails with a ProgrammingError
  that names the string without its hyphens. \<open>OrmdbClient._hex_to_uuid\<close> decodes the same
  way a string of exactly 32 hexadecimal digits, removes no hyphen, and on any other length
  fails with a ValueError that names the length.
\<close>

theorem hex_to_uuid_decodes:
  "(length (remove_hyphens s) = 32 \<and> map (digit_val 16) (remove_hyphens s) = map Some ds
      \<longrightarrow> hex_to_uuid s = Inr (pair_bytes ds)
          \<and> length (pair_bytes ds) = 16
          \<and> list_all (\<lambda>b. 0 \<le> b \<and> b < 256) (pair_bytes ds))
   \<and> (length (remove_hyphens s) \<noteq> 32
      \<longrightarrow> hex_to_uuid s
            = Inl (ProgrammingError (''Invalid UUID hex string: '' @ remove_hyphens s)))
   \<and> (length s = 32 \<and> map (digit_val 16) s = map Some ds
      \<longrightarrow> client_hex_to_uuid s = Inr (pair_bytes ds))
   \<and> (length s \<noteq> 32
      \<longrightarrow> client_hex_to_uuid s
            = Inl (ValueError (''Invalid UUID hex string length: '' @ decimal (length s))))"
proof (intro conjI impI)
  assume a: "length (remove_hyphens s) = 32
             \<and> map (digit_val 16) (remove_hyphens s) = map Some ds"
  then have l: "length ds = 32"
    by (metis length_map)
  show "hex_to_uuid s = Inr (pair_bytes ds)"
    using a hex_pairs_digits[of "remove_hyphens s" ds]
    by (simp add: hex_to_uuid_def replace_hyphens)
  show "length (pair_bytes ds) = 16"
    using l by (simp add: pair_bytes_length)
  show "list_all (\<lambda>b. 0 \<le> b \<and> b < 256) (pair_bytes ds)"
    using a hex_digits_bounded pair_bytes_range by blast
next
  assume "length (remove_hyphens s) \<noteq> 32"
  then show "hex_to_uuid s
             = Inl (ProgrammingError (''Invalid UUID hex string: '' @ remove_hyphens s))"
    by (simp add: hex_to_uuid_def replace_hyphens)
next
  assume "length s = 32 \<and> map (digit_val 16) s = map Some ds"
  then show "client_hex_to_uuid s = Inr (pair_bytes ds)"
    using hex_pairs_digits[of s ds] by (simp add: client_hex_to_uuid_def)
next
  assume "length s \<noteq> 32"
  then show "client_hex_to_uuid s
             = Inl (ValueError (''Invalid UUID hex string length: '' @ decimal (length s)))"
    by (simp add: client_hex_to_uuid_def)
qed

theorem hex_to_uuid_decodes_witness:
  "hex_to_uuid ''01234567-8901-2345-6789-012345678901''
     = Inr [0x01, 0x23, 0x45, 0x67, 0x89, 0x01, 0x23, 0x45,
            0x67, 0x89, 0x01, 0x23, 0x45, 0x67, 0x89, 0x01]
   \<and> hex_to_uuid ''01234567890123456789012345678901''
     = Inr [0x01, 0x23, 0x45, 0x67, 0x89, 0x01, 0x23, 0x45,
            0x67, 0x89, 0x01, 0x23, 0x45, 0x67, 0x89, 0x01]
   \<and> client_hex_to_uuid ''01234567890123456789012345678901''
     = Inr [0x01, 0x23, 0x45, 0x67, 0x89, 0x01, 0x23, 0x45,
            0x67, 0x89, 0x01, 0x23, 0x45, 0x67, 0x89, 0x01]
   \<and> hex_to_uuid ''12-34'' = Inl (ProgrammingError ''Invalid UUID hex string: 1234'')
   \<and> client_hex_to_uuid ''1234'' = Inl (ValueError ''Invalid UUID hex string length: 4'')"
  using
    hex_to_uuid_decodes [of "''01234567-8901-2345-6789-012345678901''"
      "[0, 1, 2, 3, 4, 5, 6, 7, 8, 9, 0, 1, 2, 3, 4, 5, 6, 7, 8, 9, 0, 1,
        2, 3, 4, 5, 6, 7, 8, 9, 0, 1]"]
    hex_to_uuid_decodes [of "''01234567890123456789012345678901''"
      "[0, 1, 2, 3, 4, 5, 6, 7, 8, 9, 0, 1, 2, 3, 4, 5, 6, 7, 8, 9, 0, 1,
        2, 3, 4, 5, 6, 7, 8, 9, 0, 1]"]
    hex_to_uuid_decodes [of "''12-34''" "[]"]
    hex_to_uuid_decodes [of "''1234''" "[]"]
  by (simp add: remove_hyphens_def digit_val_def digit_table_def digits_def)

subsection \<open>Reading rows\<close>

text \<open>
  C8: below the row count \<open>fetchone\<close> returns the row at the read position and advances
  the position by exactly one; at the row count (an empty result set included) it returns
  \<open>None\<close>, raises nothing and leaves the cursor as it is.
\<close>

theorem fetchone_steps:
  "(row_index c < length (rows c)
      \<longrightarrow> fst (fetchone c) = Some (rows c ! row_index c)
          \<and> row_index (snd (fetchone c)) = row_index c + 1
          \<and> snd (fetchone c) = c\<lparr>row_index := row_index c + 1\<rparr>)
   \<and> (row_index c = length (rows c) \<longrightarrow> fetchone c = (None, c))"
  by (simp add: fetchone_def)

theorem fetchone_steps_witness:
  "fetchone (new_cursor\<lparr>rows := [[1 :: nat, 2], [3, 4]], row_index := 1\<rparr>)
     = (Some [3, 4], new_cursor\<lparr>rows := [[1 :: nat, 2], [3, 4]], row_index := 2\<rparr>)
   \<and> fetchone (new_cursor\<lparr>rows := [[1 :: nat, 2], [3, 4]], row_index := 2\<rparr>)
     = (None, new_cursor\<lparr>rows := [[1 :: nat, 2], [3, 4]], row_index := 2\<rparr>)
   \<and> fetchone (new_cursor :: nat cursor) = (None, new_cursor)"
  using fetchone_steps [of "new_cursor\<lparr>rows := [[1 :: nat, 2], [3, 4]], row_index := 1\<rparr>"]
    fetchone_steps [of "new_cursor\<lparr>rows := [[1 :: nat, 2], [3, 4]], row_index := 2\<rparr>"]
    fetchone_steps [of "new_cursor :: nat cursor"]
  by (simp add: new_cursor_def prod_eq_iff)

lemma fetchmany_positive:
  assumes "0 < n"
  shows "fetchmany (Some n) c
         = (take (nat n) (drop (row_index c) (rows c)),
            c\<lparr>row_index := row_index c + length (take (nat n) (drop (row_index c) (rows c)))\<rparr>)"
proof -
  have "slice_to (rows c) (row_index c) (int (row_index c) + n)
        = take (nat n) (drop (row_index c) (rows c))"
    using assms by (auto simp: slice_to_def Let_def min_def nat_add_distrib nat_diff_distrib)
  then show ?thesis
    by (simp add: fetchmany_def Let_def)
qed

lemma fetchmany_until_empty_rows:
  "0 < n \<Longrightarrow> concat (fst (fetchmany_until_empty n c)) = drop (row_index c) (rows c)"
proof (induction n c rule: fetchmany_until_empty.induct)
  case (1 n c)
  let ?b = "take (nat n) (drop (row_index c) (rows c))"
  have fm: "fetchmany (Some n) c = (?b, c\<lparr>row_index := row_index c + length ?b\<rparr>)"
    using fetchmany_positive[OF "1.prems"] .
  show ?case
  proof (cases "?b = []")
    case True
    then have "drop (row_index c) (rows c) = []"
      using "1.prems" by (auto simp: take_eq_Nil)
    then show ?thesis
      using True by (subst fetchmany_until_empty.simps) (simp add: fm)
  next
    case False
    then have ne: "fst (fetchmany (Some n) c) \<noteq> []"
      by (simp add: fm)
    have ih: "concat (fst (fetchmany_until_empty n (snd (fetchmany (Some n) c))))
              = drop (row_index (snd (fetchmany (Some n) c))) (rows (snd (fetchmany (Some n) c)))"
      using "1.IH"(1)[OF ne "1.prems"] .
    have "concat (fst (fetchmany_until_empty n c))
          = ?b @ drop (row_index c + length ?b) (rows c)"
      using ne ih by (subst fetchmany_until_empty.simps) (simp add: fm)
    also have "\<dots> = ?b @ drop (length ?b) (drop (row_index c) (rows c))"
      by (simp add: add.commute)
    also have "\<dots> = drop (row_index c) (rows c)"
      by (metis append_take_drop_id length_take min.absorb2 min.cobounded1 min_def
          nat_le_linear take_all_iff)
    finally show ?thesis .
  qed
qed

lemma fetchmany_until_empty_cursor:
  "0 < n \<Longrightarrow> row_index c \<le> length (rows c)
   \<Longrightarrow> snd (fetchmany_until_empty n c) = c\<lparr>row_index := length (rows c)\<rparr>"
proof (induction n c rule: fetchmany_until_empty.induct)
  case (1 n c)
  let ?b = "take (nat n) (drop (row_index c) (rows c))"
  let ?c' = "c\<lparr>row_index := row_index c + length ?b\<rparr>"
  have n: "0 < n" and le: "row_index c \<le> length (rows c)"
    using "1.prems" by auto
  have fm: "fetchmany (Some n) c = (?b, ?c')"
    using fetchmany_positive[OF n] .
  show ?case
  proof (cases "?b = []")
    case True
    then have "row_index c = length (rows c)"
      using n le by (auto simp: take_eq_Nil)
    then show ?thesis
      using True by (subst fetchmany_until_empty.simps) (simp add: fm)
  next
    case False
    then have ne: "fst (fetchmany (Some n) c) \<noteq> []"
      by (simp add: fm)
    have le': "row_index (snd (fetchmany (Some n) c)) \<le> length (rows (snd (fetchmany (Some n) c)))"
      using le by (simp add: fm)
    have "snd (fetchmany_until_empty n (snd (fetchmany (Some n) c)))
          = (snd (fetchmany (Some n) c))\<lparr>row_index := length (rows (snd (fetchmany (Some n) c)))\<rparr>"
      using "1.IH"(2)[OF ne n le'] .
    then show ?thesis
      using ne by (subst fetchmany_until_empty.simps) (simp add: fm)
  qed
qed

lemma fetchmany_beyond:
  assumes "length (rows c) < row_index c"
  shows "fetchmany sz c = ([], c)"
proof -
  have "slice_to (rows c) (row_index c) stop = []" for stop
    using assms by (auto simp: slice_to_def Let_def min_def max_def)
  then show ?thesis
    by (simp add: fetchmany_def Let_def)
qed

lemma fetchmany_until_empty_beyond:
  assumes "length (rows c) < row_index c"
  shows "fetchmany_until_empty n c = ([], c)"
  by (subst fetchmany_until_empty.simps) (simp add: fetchmany_beyond[OF assms])

text \<open>
  C3 (counterexample): \<open>close\<close> empties the rows and keeps the read position, and the
  fetch methods do not test whether the cursor is closed. On a cursor closed at position
  2 the first \<open>fetchmany(1)\<close> returns the empty list and leaves the position at 2, while
  the row count is 0; \<open>fetchall\<close> sets the position to 0. So the loop does not leave the
  position at the row count from every read position.
\<close>

theorem fetchmany_until_empty_closed:
  "row_index (snd (fetchmany_until_empty 1
       (close (new_cursor\<lparr>rows := [[1 :: nat], [2], [3]], row_index := 2\<rparr>)))) = 2
   \<and> length (rows (close (new_cursor\<lparr>rows := [[1 :: nat], [2], [3]], row_index := 2\<rparr>))) = 0
   \<and> row_index (snd (fetchall
       (close (new_cursor\<lparr>rows := [[1 :: nat], [2], [3]], row_index := 2\<rparr>)))) = 0"
proof -
  have "length (rows (close (new_cursor\<lparr>rows := [[1 :: nat], [2], [3]], row_index := 2\<rparr>)))
        < row_index (close (new_cursor\<lparr>rows := [[1 :: nat], [2], [3]], row_index := 2\<rparr>))"
    by (simp add: close_def)
  then have "fetchmany_until_empty 1
               (close (new_cursor\<lparr>rows := [[1 :: nat], [2], [3]], row_index := 2\<rparr>))
             = ([], close (new_cursor\<lparr>rows := [[1 :: nat], [2], [3]], row_index := 2\<rparr>))"
    by (rule fetchmany_until_empty_beyond)
  then show ?thesis
    by (simp add: close_def fetchall_def)
qed

text \<open>
  C3 (amended): for any positive \<open>n\<close> and from any read position, the batches that
  repeated \<open>fetchmany(n)\<close> returns until an empty one, concatenated in call order, are the
  rows a single \<open>fetchall()\<close> returns from that position, in the same order. From a
  position within the result set (at most the row count) both leave the position at the
  row count, and the same cursor. From a position beyond the row count (a cursor closed
  after rows were read) the loop returns no batch and leaves the cursor as it is, while
  \<open>fetchall\<close> sets the position to the row count.
\<close>

theorem fetchmany_until_empty_is_fetchall:
  "(0 < n \<longrightarrow> concat (fst (fetchmany_until_empty n c)) = fst (fetchall c))
   \<and> (0 < n \<and> row_index c \<le> length (rows c)
      \<longrightarrow> row_index (snd (fetchmany_until_empty n c)) = length (rows c)
          \<and> row_index (snd (fetchall c)) = length (rows c)
          \<and> snd (fetchmany_until_empty n c) = snd (fetchall c))
   \<and> (length (rows c) < row_index c
      \<longrightarrow> fetchmany_until_empty n c = ([], c)
          \<and> snd (fetchall c) = c\<lparr>row_index := length (rows c)\<rparr>)"
proof (intro conjI impI)
  assume "0 < n"
  then show "concat (fst (fetchmany_until_empty n c)) = fst (fetchall c)"
    by (simp add: fetchmany_until_empty_rows fetchall_def)
next
  assume a: "0 < n \<and> row_index c \<le> length (rows c)"
  then have e: "snd (fetchmany_until_empty n c) = c\<lparr>row_index := length (rows c)\<rparr>"
    by (simp add: fetchmany_until_empty_cursor)
  show "row_index (snd (fetchmany_until_empty n c)) = length (rows c)"
    by (simp add: e)
  show "row_index (snd (fetchall c)) = length (rows c)"
    by (simp add: fetchall_def)
  show "snd (fetchmany_until_empty n c) = snd (fetchall c)"
    by (simp add: e fetchall_def)
next
  assume "length (rows c) < row_index c"
  then show "fetchmany_until_empty n c = ([], c)"
    by (rule fetchmany_until_empty_beyond)
next
  show "snd (fetchall c) = c\<lparr>row_index := length (rows c)\<rparr>"
    by (simp add: fetchall_def)
qed

theorem fetchmany_until_empty_is_fetchall_witness:
  "concat (fst (fetchmany_until_empty 2
       (new_cursor\<lparr>rows := [[1 :: nat], [2], [3], [4]], row_index := 1\<rparr>)))
     = [[2], [3], [4]]
   \<and> row_index (snd (fetchmany_until_empty 2
       (new_cursor\<lparr>rows := [[1 :: nat], [2], [3], [4]], row_index := 1\<rparr>))) = 4
   \<and> fetchmany_until_empty 2 (new_cursor\<lparr>rows := [[1 :: nat]], row_index := 3\<rparr>)
     = ([], new_cursor\<lparr>rows := [[1 :: nat]], row_index := 3\<rparr>)"
  using
    fetchmany_until_empty_is_fetchall
      [of 2 "new_cursor\<lparr>rows := [[1 :: nat], [2], [3], [4]], row_index := 1\<rparr>"]
    fetchmany_until_empty_is_fetchall
      [of 2 "new_cursor\<lparr>rows := [[1 :: nat]], row_index := 3\<rparr>"]
  by (simp add: fetchall_def)

subsection \<open>Literals\<close>

lemmas literal_eval =
  parse_sql_value_def strip_def lstrip_def rstrip_def is_space_def int_strip_def
  is_int_space_def quoted_def endswith_def upper_def upper_char_def ascii_lowercase_def
  ascii_uppercase_def latin1_lowercase_def latin1_uppercase_def contains_def py_int_def
  max_str_digits_def split_sign_def digitpart_def digit_val_def digit_table_def
  py_float_ok_def ascii_lower_def ascii_lower_char_def floatnumber_ok_def skip_digitpart_def
  is_digit_def digits_def exponent_ok_def

lemma dropWhile_keeps: "x \<in> set s \<Longrightarrow> \<not> P x \<Longrightarrow> x \<in> set (dropWhile P s)"
  by (induction s) auto

lemma int_strip_keeps: "x \<in> set s \<Longrightarrow> \<not> is_int_space x \<Longrightarrow> x \<in> set (int_strip s)"
  by (simp add: int_strip_def dropWhile_keeps)

lemma contains_char: "contains s [c] = (c \<in> set s)"
  by (induction s) (auto simp: contains_def split: option.splits)

lemma dot_not_digit: "digit_val b CHR ''.'' = None"
  by (simp add: digit_val_def digit_table_def)

lemma after_digit_chars:
  "after_digit b cs acc = Some r
   \<Longrightarrow> list_all (\<lambda>c. c = CHR ''_'' \<or> digit_val b c \<noteq> None) cs"
  by (induction b cs acc rule: after_digit.induct)
     (auto split: if_splits list.splits option.splits)

lemma digitpart_chars:
  "digitpart b s = Some r \<Longrightarrow> list_all (\<lambda>c. c = CHR ''_'' \<or> digit_val b c \<noteq> None) s"
  by (auto simp: digitpart_def split: list.splits option.splits dest: after_digit_chars)

lemma split_sign_keeps:
  "x \<in> set t \<Longrightarrow> x \<noteq> CHR ''+'' \<Longrightarrow> x \<noteq> CHR ''-'' \<Longrightarrow> x \<in> set (snd (split_sign t))"
  by (cases t) (auto simp: split_sign_def)

lemma digitpart_dot: "CHR ''.'' \<in> set t \<Longrightarrow> digitpart b t = None"
proof (rule ccontr)
  assume d: "CHR ''.'' \<in> set t" and "digitpart b t \<noteq> None"
  then obtain r where "digitpart b t = Some r" by blast
  then have "list_all (\<lambda>c. c = CHR ''_'' \<or> digit_val b c \<noteq> None) t"
    by (rule digitpart_chars)
  with d have "CHR ''.'' = CHR ''_'' \<or> digit_val b CHR ''.'' \<noteq> None"
    unfolding list_all_iff by blast
  then show False
    by (simp add: dot_not_digit)
qed

lemma py_int_dot:
  assumes "CHR ''.'' \<in> set s"
  shows "py_int s = None"
proof -
  have "CHR ''.'' \<in> set (int_strip s)"
    using assms by (rule int_strip_keeps) (simp add: is_int_space_def)
  then have "CHR ''.'' \<in> set (snd (split_sign (int_strip s)))"
    by (rule split_sign_keeps) simp_all
  then have "digitpart 10 (snd (split_sign (int_strip s))) = None"
    by (rule digitpart_dot)
  then show ?thesis
    by (simp add: py_int_def split_beta)
qed

text \<open>
  C9 (counterexample): the token \<open>1e5\<close> is no integer but is a floating-point literal. In
  the order the claim gives (an integer parse, then a floating-point parse) it would be the
  float; \<open>_parse_sql_value\<close> returns it as a bare string, because it tries \<open>float\<close> only on
  a token that contains a dot.
\<close>

theorem parse_sql_value_exponent:
  "parse_sql_value ''1e5'' = PStr ''1e5'' \<and> literal_in_spec_order ''1e5'' = PFloat ''1e5''"
  by (simp add: literal_eval literal_in_spec_order_def)

text \<open>
  C9 (amended): \<open>_parse_sql_value\<close> classifies the stripped token as the claim says
  (quoted string, then NULL, then TRUE or FALSE, then a number, else the bare token), but
  the number step is one parse chosen by the dot, not an integer parse followed by a
  floating-point parse: a token with a dot goes to \<open>float\<close> only, a token without a dot to
  \<open>int\<close> only. So the result differs from the order of the claim exactly on the tokens that
  are not quoted, are no keyword, have no dot, are no integer and are a floating-point
  literal (exponent notation, inf, nan); there the result is the bare string where the
  claim gives the float. A float result always has a dot in its text, and an integer
  result is always the value of \<open>int\<close> on a token without a dot.
\<close>

theorem parse_sql_value_order:
  "(parse_sql_value s \<noteq> literal_in_spec_order s)
     = (\<not> quoted (strip s) \<and> upper (strip s) \<notin> set [''NULL'', ''TRUE'', ''FALSE'']
        \<and> CHR ''.'' \<notin> set (strip s) \<and> py_int (strip s) = None \<and> py_float_ok (strip s))
   \<and> (parse_sql_value s \<noteq> literal_in_spec_order s
      \<longrightarrow> parse_sql_value s = PStr (strip s) \<and> literal_in_spec_order s = PFloat (strip s))
   \<and> (\<forall>f. parse_sql_value s = PFloat f
      \<longrightarrow> f = strip s \<and> CHR ''.'' \<in> set f \<and> py_float_ok f)
   \<and> (\<forall>i. parse_sql_value s = PInt i
      \<longrightarrow> CHR ''.'' \<notin> set (strip s) \<and> py_int (strip s) = Some i)"
proof -
  let ?v = "strip s"
  have dot: "CHR ''.'' \<in> set ?v \<Longrightarrow> py_int ?v = None"
    by (rule py_int_dot)
  have 1: "(parse_sql_value s \<noteq> literal_in_spec_order s)
     = (\<not> quoted ?v \<and> upper ?v \<notin> set [''NULL'', ''TRUE'', ''FALSE'']
        \<and> CHR ''.'' \<notin> set ?v \<and> py_int ?v = None \<and> py_float_ok ?v)"
    using dot
    by (cases "py_int ?v")
       (auto simp: parse_sql_value_def literal_in_spec_order_def contains_char Let_def)
  have 2: "parse_sql_value s \<noteq> literal_in_spec_order s
      \<longrightarrow> parse_sql_value s = PStr ?v \<and> literal_in_spec_order s = PFloat ?v"
    using dot
    by (cases "py_int ?v")
       (auto simp: parse_sql_value_def literal_in_spec_order_def contains_char Let_def)
  have 3: "\<forall>f. parse_sql_value s = PFloat f
      \<longrightarrow> f = ?v \<and> CHR ''.'' \<in> set f \<and> py_float_ok f"
    by (cases "py_int ?v")
       (auto simp: parse_sql_value_def contains_char Let_def split: if_splits)
  have 4: "\<forall>i. parse_sql_value s = PInt i
      \<longrightarrow> CHR ''.'' \<notin> set ?v \<and> py_int ?v = Some i"
    by (cases "py_int ?v")
       (auto simp: parse_sql_value_def contains_char Let_def split: if_splits)
  from 1 2 3 4 show ?thesis
    by (intro conjI)
qed

theorem parse_sql_value_order_witness:
  "parse_sql_value ''2E3'' = PStr ''2E3'' \<and> literal_in_spec_order ''2E3'' = PFloat ''2E3''
   \<and> parse_sql_value '' inf '' = PStr ''inf''
   \<and> parse_sql_value '' 42 '' = PInt 42
   \<and> parse_sql_value ''1.5'' = PFloat ''1.5''
   \<and> parse_sql_value ''null'' = PNone
   \<and> parse_sql_value ''True'' = PBool True
   \<and> parse_sql_value ''abc'' = PStr ''abc''
   \<and> parse_sql_value ''1.2.3'' = PStr ''1.2.3''
   \<and> parse_sql_value [CHR 0x27, CHR ''N'', CHR ''U'', CHR ''L'', CHR ''L'', CHR 0x27]
       = PStr ''NULL''
   \<and> parse_sql_value [CHR 0xA0, CHR ''4'', CHR ''2'', CHR 0x85] = PInt 42"
  using parse_sql_value_order [of "''2E3''"] parse_sql_value_order [of "'' inf ''"]
    parse_sql_value_order [of "'' 42 ''"] parse_sql_value_order [of "''1.5''"]
  by (simp add: literal_eval literal_in_spec_order_def)

subsection \<open>WHERE clauses\<close>

lemma re_match_first: "re_match r s = map_option fst (first_match r ([], s))"
  by (simp add: re_match_def first_match_def split: list.splits)

lemma first_matchE: "first_match r st = Some x \<Longrightarrow> \<exists>xs. matches r st = x # xs"
  by (auto simp: first_match_def split: list.splits)

lemma first_Chr: "p c \<Longrightarrow> first_match (Chr p) (caps, c # cs) = Some (caps, cs)"
  by (simp add: first_match_def)

lemma first_Eps: "first_match Eps st = Some st"
  by (simp add: first_match_def)

lemma first_Seq:
  "first_match a st = Some st1 \<Longrightarrow> first_match b st1 = Some st2
   \<Longrightarrow> first_match (Seq a b) st = Some st2"
  by (auto simp: first_match_def split: list.splits)

lemma first_Alt: "first_match a st = Some x \<Longrightarrow> first_match (Alt a b) st = Some x"
  by (auto simp: first_match_def split: list.splits)

lemma first_Grp:
  "first_match r (caps, s) = Some (caps', s')
   \<Longrightarrow> first_match (Grp n r) (caps, s) = Some ((n, take (length s - length s') s) # caps', s')"
  by (auto simp: first_match_def split: list.splits)

lemma first_Star_run:
  "list_all p a \<Longrightarrow> (rest = [] \<or> \<not> p (hd rest))
   \<Longrightarrow> first_match (Star (Chr p)) (caps, a @ rest) = Some (caps, rest)"
proof (induction a)
  case Nil
  then show ?case by (cases rest) (auto simp: first_match_def)
next
  case (Cons c a)
  then have "first_match (Star (Chr p)) (caps, a @ rest) = Some (caps, rest)" by simp
  then obtain xs where "matches (Star (Chr p)) (caps, a @ rest) = (caps, rest) # xs"
    by (auto dest: first_matchE)
  with Cons.prems show ?case
    by (simp add: first_match_def)
qed

lemma first_Plus_run:
  "a \<noteq> [] \<Longrightarrow> list_all p a \<Longrightarrow> (rest = [] \<or> \<not> p (hd rest))
   \<Longrightarrow> first_match (Plus (Chr p)) (caps, a @ rest) = Some (caps, rest)"
proof -
  assume a: "a \<noteq> []" "list_all p a" "rest = [] \<or> \<not> p (hd rest)"
  then obtain c a' where ca: "a = c # a'" by (cases a) auto
  have 1: "first_match (Chr p) (caps, a @ rest) = Some (caps, a' @ rest)"
    using a ca by (simp add: first_Chr)
  have 2: "first_match (Star (Chr p)) (caps, a' @ rest) = Some (caps, rest)"
    using a ca by (intro first_Star_run) auto
  show ?thesis unfolding Plus_def using first_Seq[OF 1 2] .
qed

lemma rstrip_keeps_head:
  "\<not> is_space x \<Longrightarrow> \<exists>zs. rstrip (x # t) = x # zs"
proof -
  assume x: "\<not> is_space x"
  have "\<exists>zs. dropWhile is_space (ys @ [x]) = zs @ [x]" for ys
    using x by (induction ys) auto
  then obtain zs where "dropWhile is_space (rev t @ [x]) = zs @ [x]" by blast
  then show ?thesis by (simp add: rstrip_def)
qed

lemma strip_idem: "strip (strip s) = strip s"
proof (cases "lstrip s")
  case Nil
  then have e: "strip s = []" by (simp add: strip_def rstrip_def)
  have "strip [] = []" by (simp add: strip_def rstrip_def lstrip_def)
  then show ?thesis unfolding e .
next
  case (Cons x t)
  then have x: "\<not> is_space x"
    unfolding lstrip_def by (metis dropWhile_eq_Cons_conv)
  then obtain zs where z: "rstrip (x # t) = x # zs"
    using rstrip_keeps_head by blast
  have "lstrip (rstrip (x # t)) = rstrip (x # t)"
    using x by (simp add: z lstrip_def)
  moreover have "rstrip (rstrip (x # t)) = rstrip (x # t)"
    by (simp add: rstrip_def)
  ultimately show ?thesis
    by (simp add: strip_def Cons)
qed

lemma parse_sql_value_strip: "parse_sql_value (strip s) = parse_sql_value s"
  by (simp add: parse_sql_value_def strip_idem)

lemma first_where:
  assumes "fld \<noteq> []" "list_all is_word fld" "rest \<noteq> []" "\<not> is_space (hd rest)"
    "CHR 0x0A \<notin> set rest"
  shows "first_match where_re ([], fld @ ''='' @ rest)
         = Some ([(3, rest), (2, ''=''), (1, fld)], [])"
proof -
  have nw: "\<not> is_word CHR ''=''" and ns: "\<not> is_space CHR ''=''"
    by (simp_all add: is_word_def is_space_def ascii_lowercase_def ascii_uppercase_def digits_def
        latin1_lowercase_def latin1_uppercase_def latin1_other_word_def)
  have 1: "first_match (Grp 1 word1) ([], fld @ ''='' @ rest) = Some ([(1, fld)], ''='' @ rest)"
    using first_Grp[OF first_Plus_run[of fld is_word "''='' @ rest" "[]"], of 1] assms nw
    by (simp add: word1_def)
  have 2: "first_match spaces ([(1, fld)], ''='' @ rest) = Some ([(1, fld)], ''='' @ rest)"
    using first_Star_run[of is_space "[]" "''='' @ rest" "[(1, fld)]"] ns
    by (simp add: spaces_def)
  have "first_match (Word ''='') ([(1, fld)], ''='' @ rest) = Some ([(1, fld)], rest)"
    by (simp add: Word_def Lit_def first_match_def)
  then have "first_match (Alts [Word ''='', Word ''!='', Word ''<>'', Word ''<='', Word ''>='',
                        Word ''<'', Word ''>'', Word ''LIKE'', Word ''IN'']) ([(1, fld)], ''='' @ rest) = Some ([(1, fld)], rest)"
    by (simp add: Alts_def first_Alt)
  from first_Grp[OF this, of 2]
  have 3: "first_match (Grp 2 (Alts [Word ''='', Word ''!='', Word ''<>'', Word ''<='', Word ''>='',
                        Word ''<'', Word ''>'', Word ''LIKE'', Word ''IN''])) ([(1, fld)], ''='' @ rest) = Some ([(2, ''=''), (1, fld)], rest)"
    by simp
  have 4: "first_match spaces ([(2, ''=''), (1, fld)], rest) = Some ([(2, ''=''), (1, fld)], rest)"
    using first_Star_run[of is_space "[]" rest] assms
    by (simp add: spaces_def)
  have nn: "list_all (\<lambda>c. c \<noteq> CHR 0x0A) rest"
    using assms(5) by (auto simp: list_all_iff)
  have "first_match any1 ([(2, ''=''), (1, fld)], rest @ []) = Some ([(2, ''=''), (1, fld)], [])"
    unfolding any1_def by (rule first_Plus_run[OF assms(3) nn]) simp
  then have "first_match any1 ([(2, ''=''), (1, fld)], rest) = Some ([(2, ''=''), (1, fld)], [])"
    by simp
  from first_Grp[OF this, of 3]
  have 5: "first_match (Grp 3 any1) ([(2, ''=''), (1, fld)], rest) = Some ([(3, rest), (2, ''=''), (1, fld)], [])"
    by simp
  show ?thesis
    unfolding where_re_def Seqs_def
    using first_Seq[OF 1 first_Seq[OF 2 first_Seq[OF 3 first_Seq[OF 4 first_Seq[OF 5 first_Eps]]]]]
    by simp
qed

lemma parse_where_takes_rest:
  assumes "fld \<noteq> []" "list_all is_word fld" "rest \<noteq> []" "\<not> is_space (hd rest)"
    "CHR 0x0A \<notin> set rest"
  shows "parse_where (fld @ ''='' @ rest)
         = Inr \<lparr>field = fld, op = ''eq'', val = parse_sql_value rest\<rparr>"
  using first_where[OF assms]
  by (simp add: parse_where_def re_match_first group_def op_map_def upper_def upper_char_def
      ascii_lowercase_def ascii_uppercase_def latin1_lowercase_def latin1_uppercase_def
      parse_sql_value_strip)

lemma parse_where_rejects:
  assumes "clause = [] \<or> \<not> is_word (hd clause)"
  shows "parse_where clause = Inl (ProgrammingError (''Cannot parse WHERE clause: '' @ clause))"
proof -
  have "matches (Chr is_word) ([], clause) = []"
    using assms by (cases clause) auto
  then have "matches where_re ([], clause) = []"
    by (simp add: where_re_def Seqs_def word1_def Plus_def)
  then show ?thesis
    by (simp add: parse_where_def re_match_def)
qed

text \<open>
  C4 (counterexample): the clause \<open>a=1 AND b=2\<close> parses. The pattern is matched at the
  start of the clause and its last group \<open>(.+)\<close> takes all the rest, so the result is the
  single predicate on \<open>a\<close> with the operator \<open>eq\<close> and the string \<open>1 AND b=2\<close> as value:
  no syntax error is raised.
\<close>

theorem parse_where_conjunction:
  "parse_where ''a=1 AND b=2''
     = Inr \<lparr>field = ''a'', op = ''eq'', val = PStr ''1 AND b=2''\<rparr>"
  by code_simp

text \<open>
  C4 (amended): \<open>_parse_where\<close> accepts every clause made of a field (one or more word
  characters), \<open>=\<close> and a non-empty rest on one line that does not start with a blank,
  whatever the rest contains (so also \<open>AND\<close> or \<open>OR\<close> and further comparisons): the rest is
  taken whole as the literal of the single predicate. It fails, with the ProgrammingError
  ``Cannot parse WHERE clause'' that names the clause, on every clause that is empty or
  does not start with a word character.
\<close>

theorem parse_where_single_predicate:
  "(fld \<noteq> [] \<and> list_all is_word fld \<and> rest \<noteq> [] \<and> \<not> is_space (hd rest)
      \<and> CHR 0x0A \<notin> set rest
     \<longrightarrow> parse_where (fld @ ''='' @ rest)
         = Inr \<lparr>field = fld, op = ''eq'', val = parse_sql_value rest\<rparr>)
   \<and> (clause = [] \<or> \<not> is_word (hd clause)
     \<longrightarrow> parse_where clause
         = Inl (ProgrammingError (''Cannot parse WHERE clause: '' @ clause)))"
  using parse_where_takes_rest[of fld rest] parse_where_rejects[of clause]
  by blast

theorem parse_where_single_predicate_witness:
  "parse_where ''status=x OR 1=1''
     = Inr \<lparr>field = ''status'', op = ''eq'', val = PStr ''x OR 1=1''\<rparr>
   \<and> parse_where ''=5'' = Inl (ProgrammingError ''Cannot parse WHERE clause: =5'')"
  using parse_where_single_predicate [of "''status''" "''x OR 1=1''" "''=5''"]
  by (simp add: literal_eval is_word_def latin1_other_word_def)

subsection \<open>Data lists\<close>

























subsection \<open>Pagination\<close>

text \<open>
  C6: a limit and an offset given in the statement are not always the values of the
  payload. \<open>limit or 100\<close> takes a limit of 0 for a missing one:
  \<open>SELECT * FROM t LIMIT 0 OFFSET 5\<close> sends the limit 100 with the offset 5, and
  \<open>LIMIT 0\<close> alone sends the limit 100, where \<open>LIMIT 10\<close> sends the limit 10 with
  the offset 0. \<open>OrmdbClient.query\<close> has the same text and sends the limit 100 for
  \<open>limit=0, offset=5\<close>.
\<close>

theorem pagination_limit_zero:
  "map_sum id select_payload (parse_select ''SELECT * FROM t LIMIT 0 OFFSET 5'')
     = Inr \<lparr>root_entity = ''t'', fields_key = None, filter_expression = None,
            order_by = None, pagination = Some (100, 5)\<rparr>
   \<and> map_sum id select_payload (parse_select ''SELECT * FROM t LIMIT 0'')
     = Inr \<lparr>root_entity = ''t'', fields_key = None, filter_expression = None,
            order_by = None, pagination = Some (100, 0)\<rparr>
   \<and> map_sum id select_payload (parse_select ''SELECT * FROM t LIMIT 10'')
     = Inr \<lparr>root_entity = ''t'', fields_key = None, filter_expression = None,
            order_by = None, pagination = Some (10, 0)\<rparr>
   \<and> pagination (query ''t'' None None None None (Some 0) (Some 5)) = Some (100, 5)"
  by code_simp

subsection \<open>Failed executions\<close>







text \<open>
  A successful execution, for comparison: the rows of the blocks of the response are
  concatenated, the description is the list of the keys of the first row, and the prior
  result is replaced. A successful INSERT sets the rowcount and the last inserted
  identifier.
\<close>

lemma execute_select_rows:
  "execute \<lparr>post_query = (\<lambda>p. Inr (Some (Some [Some [[(''id'', PInt 1), (''name'', PStr ''a'')]],
                                                   None,
                                                   Some [[(''id'', PInt 2), (''name'', PStr ''b'')]]]))),
            post_mutate = (\<lambda>m. Inl (HTTPError ''timeout''))\<rparr>
     (\<lambda>s ps. Inr s) (\<lambda>v. []) ''SELECT * FROM t'' None
     \<lparr>description = Some [''x''], rowcount = 1, arraysize = 1, rows = [[PInt 9]],
      row_index = 1, closed = False, last_inserted_id = Some ''7''\<rparr>
   = (None,
      \<lparr>description = Some [''id'', ''name''], rowcount = 2, arraysize = 1,
       rows = [[PInt 1, PStr ''a''], [PInt 2, PStr ''b'']], row_index = 0, closed = False,
       last_inserted_id = None\<rparr>)"
  by code_simp

lemma execute_insert_rowcount:
  "execute \<lparr>post_query = (\<lambda>p. Inr None),
            post_mutate = (\<lambda>m. Inr \<lparr>affected = Some 1, inserted_ids = Some [''42'', ''43'']\<rparr>)\<rparr>
     (\<lambda>s ps. Inr s) (\<lambda>v. []) ''INSERT INTO t (a) VALUES (1)'' None
     \<lparr>description = Some [''x''], rowcount = 1, arraysize = 1, rows = [[PInt 9]],
      row_index = 1, closed = False, last_inserted_id = None\<rparr>
   = (None,
      \<lparr>description = None, rowcount = 1, arraysize = 1, rows = [], row_index = 0,
       closed = False, last_inserted_id = Some ''42''\<rparr>)"
  by code_simp








end
